theory Spec2Isabelle
  imports Main "HOL-Library.AList"
begin

section \<open>JavaScript values\<close>

text \<open>
  A finite JavaScript value without sharing: what \<open>JSON.stringify\<close> reads and what the
  codec and \<open>removeSensitiveKeys\<close> build. An object is the list of its own enumerable
  properties in \<open>Object.entries\<close> order, with pairwise distinct keys. Numbers are
  integers; \<open>NaN\<close> and fractions are outside the model.
\<close>

datatype json =
    JUndefined
  | JNull
  | JBool bool
  | JNum int
  | JStr string
  | JArr "json list"
  | JObj "(string \<times> json) list"


section \<open>The heap: values with reference identity\<close>

text \<open>
  \<open>removeSensitiveKeys\<close> compares objects by reference (\<open>parents.includes(object[key])\<close>,
  \<open>object[key] === object\<close>), and its inputs may be cyclic. A value is therefore a primitive
  or a reference into a heap of objects and arrays.
\<close>

type_synonym addr = nat

datatype val =
    VUndefined
  | VNull
  | VBool bool
  | VNum int
  | VStr string
  | VRef addr

datatype cell =
    CObject "(string \<times> val) list"
  | CArray "val list"

type_synonym heap = "addr \<Rightarrow> cell"

fun prim_json :: "val \<Rightarrow> json" where
  "prim_json VUndefined = JUndefined"
| "prim_json VNull = JNull"
| "prim_json (VBool b) = JBool b"
| "prim_json (VNum n) = JNum n"
| "prim_json (VStr s) = JStr s"
| "prim_json (VRef a) = JUndefined"

text \<open>
  \<open>parents?.includes(object[key]) || object[key] === object\<close>, where \<open>a\<close> is the address
  of \<open>object\<close>. The list \<open>parents\<close> holds the addresses pushed by the callers; an absent
  \<open>parents\<close> is the empty list (\<open>parents || []\<close>).
\<close>

fun is_circular :: "addr list \<Rightarrow> addr \<Rightarrow> val \<Rightarrow> bool" where
  "is_circular parents a (VRef r) = (r \<in> set parents \<or> r = a)"
| "is_circular parents a _ = False"

text \<open>
  \<open>removeSensitiveKeys(object, keys, parents)\<close> of \<open>utils.ts\<close>. The JavaScript recursion
  has no bound, so the model carries fuel that bounds the depth of the call stack:
  \<open>None\<close> is "the stack was not deep enough". A call that returns \<open>None\<close> for every
  amount of fuel is a call that never returns. Primitives return without a recursive call
  and need no fuel.

  In the object branch the \<open>reduce\<close> over \<open>Object.keys(object)\<close> is a \<open>fold\<close> over the
  property list with the object under construction (\<open>sanitized\<close>) as accumulator.
\<close>

fun removeSensitiveKeys :: "nat \<Rightarrow> heap \<Rightarrow> val \<Rightarrow> string list \<Rightarrow> addr list \<Rightarrow> json option" where
  "removeSensitiveKeys 0 h (VRef a) keys parents = None"
| "removeSensitiveKeys (Suc fuel) h (VRef a) keys parents =
    (case h a of
       CArray elems \<Rightarrow>
         map_option JArr
           (those (map (\<lambda>elem. removeSensitiveKeys fuel h elem keys (parents @ [a])) elems))
     | CObject props \<Rightarrow>
         map_option JObj
           (fold (\<lambda>(key, v) acc.
              case acc of
                None \<Rightarrow> None
              | Some sanitized \<Rightarrow>
                  if key \<in> set keys then Some sanitized
                  else if is_circular parents a v then Some sanitized
                  else if v = VNull \<or> v = VUndefined
                    then Some (AList.update key (prim_json v) sanitized)
                  else (case v of
                       VRef r \<Rightarrow>
                         (case h r of
                            CArray elems \<Rightarrow>
                              map_option (\<lambda>js. AList.update key (JArr js) sanitized)
                                (those (map (\<lambda>elem. removeSensitiveKeys fuel h elem keys (parents @ [a]))
                                   (filter (\<lambda>elem. elem \<noteq> VRef a) elems)))
                          | CObject _ \<Rightarrow>
                              map_option (\<lambda>j. AList.update key j sanitized)
                                (removeSensitiveKeys fuel h v keys (parents @ [a])))
                     | _ \<Rightarrow> Some (AList.update key (prim_json v) sanitized)))
            props (Some [])))"
| "removeSensitiveKeys fuel h v keys parents = Some (prim_json v)"

definition breakCircularReferences :: "nat \<Rightarrow> heap \<Rightarrow> val \<Rightarrow> addr list \<Rightarrow> json option" where
  "breakCircularReferences fuel h object parents = removeSensitiveKeys fuel h object [] parents"

text \<open>The heap after \<open>const a = []; a.push(a)\<close>: address 0 is an array whose element is itself.\<close>

definition heap_self_array :: heap where
  "heap_self_array = (\<lambda>_. CObject [])(0 := CArray [VRef 0])"

text \<open>The heap after \<open>const o = {a: 1}; o.self = o\<close>.\<close>

definition heap_self_object :: heap where
  "heap_self_object = (\<lambda>_. CObject [])(0 := CObject [(''a'', VNum 1), (''self'', VRef 0)])"

text \<open>
  The heaps of the repository's tests: \<open>obj.d = {c: 3, e: obj, f: "four"}\<close> and
  \<open>obj.d = [obj]\<close>, for \<open>obj = {a: 1, b: "two", c: null}\<close> at address 0.
\<close>

definition heap_nested_cycle :: heap where
  "heap_nested_cycle = (\<lambda>_. CObject [])
     (0 := CObject [(''a'', VNum 1), (''b'', VStr ''two''), (''c'', VNull), (''d'', VRef 1)],
      1 := CObject [(''c'', VNum 3), (''e'', VRef 0), (''f'', VStr ''four'')])"

definition heap_cycle_in_array :: heap where
  "heap_cycle_in_array = (\<lambda>_. CObject [])
     (0 := CObject [(''a'', VNum 1), (''b'', VStr ''two''), (''c'', VNull), (''d'', VRef 1)],
      1 := CArray [VRef 0])"

text \<open>The heap after \<open>const o = {}; o.a = {d: [o]}\<close>: the array holds the grandparent.\<close>

definition heap_ancestor_in_array :: heap where
  "heap_ancestor_in_array = (\<lambda>_. CObject [])
     (0 := CObject [(''a'', VRef 1)],
      1 := CObject [(''d'', VRef 2)],
      2 := CArray [VRef 0])"

text \<open>The heap after \<open>const o = {}; o.d = [[o]]\<close>: a cycle through an array in an array.\<close>

definition heap_cycle_in_nested_array :: heap where
  "heap_cycle_in_nested_array = (\<lambda>_. CObject [])
     (0 := CObject [(''d'', VRef 1)],
      1 := CArray [VRef 2],
      2 := CArray [VRef 0])"

text \<open>
  The value read as a tree, following every reference: what \<open>JSON.stringify\<close> and a
  structural comparison (\<open>toEqual\<close>) traverse. \<open>tree_of n h v\<close> is defined when no path from
  \<open>v\<close> passes through more than \<open>n\<close> references, hence for a value without a cycle and for
  no value with one.
\<close>

fun tree_of :: "nat \<Rightarrow> heap \<Rightarrow> val \<Rightarrow> json option" where
  "tree_of 0 h (VRef a) = None"
| "tree_of (Suc n) h (VRef a) =
    (case h a of
       CArray elems \<Rightarrow> map_option JArr (those (map (tree_of n h) elems))
     | CObject props \<Rightarrow>
         map_option JObj
           (those (map (\<lambda>(key, v). map_option (Pair key) (tree_of n h v)) props)))"
| "tree_of n h v = Some (prim_json v)"

text \<open>The values held by the object or array at an address.\<close>

definition values_at :: "heap \<Rightarrow> addr \<Rightarrow> val set" where
  "values_at h a = (case h a of CArray elems \<Rightarrow> set elems | CObject props \<Rightarrow> snd ` set props)"

text \<open>The property names of a JavaScript object are distinct.\<close>

definition heap_wf :: "heap \<Rightarrow> bool" where
  "heap_wf h = (\<forall>a. case h a of CObject props \<Rightarrow> distinct (map fst props) | CArray _ \<Rightarrow> True)"

text \<open>The heap of \<open>{a: 1, b: [{c: "x"}]}\<close>: a value without a cycle.\<close>

definition heap_tree :: heap where
  "heap_tree = (\<lambda>_. CObject [])
     (0 := CObject [(''a'', VNum 1), (''b'', VRef 1)],
      1 := CArray [VRef 2],
      2 := CObject [(''c'', VStr ''x'')])"

section \<open>Dates, and the routing of an action to its index\<close>

subsection \<open>The date library, as far as the engine uses it\<close>

text \<open>
  The engine reads and writes dates through a date library (\<open>DateTime\<close>, \<open>Interval\<close>),
  always in the zone UTC. A \<open>DateTime\<close> is modelled by its calendar fields in UTC. The
  library compares two dates by their instant; on valid dates that is the lexicographic
  order of the fields, which \<open>dt_less\<close> is.
\<close>

record DateTime =
  year :: int
  month :: nat
  day :: nat
  hour :: nat
  minute :: nat
  second :: nat
  millisecond :: nat

definition isLeapYear :: "int \<Rightarrow> bool" where
  "isLeapYear y = (y mod 4 = 0 \<and> (y mod 100 \<noteq> 0 \<or> y mod 400 = 0))"

definition daysInMonth :: "int \<Rightarrow> nat \<Rightarrow> nat" where
  "daysInMonth y m =
     (if m = 2 then (if isLeapYear y then 29 else 28)
      else if m \<in> {4, 6, 9, 11} then 30 else 31)"

definition isValid :: "DateTime \<Rightarrow> bool" where
  "isValid d = (1 \<le> month d \<and> month d \<le> 12 \<and> 1 \<le> day d \<and> day d \<le> daysInMonth (year d) (month d)
     \<and> hour d < 24 \<and> minute d < 60 \<and> second d < 60 \<and> millisecond d < 1000)"

definition monthIndex :: "DateTime \<Rightarrow> int" where
  "monthIndex d = year d * 12 + int (month d) - 1"

text \<open>
  \<open>d.plus({months: n})\<close>, and \<open>d.minus({months: n})\<close> for a negative \<open>n\<close>: the month moves,
  the year follows, and the day is cut to the length of the new month.
\<close>

definition plusMonths :: "DateTime \<Rightarrow> int \<Rightarrow> DateTime" where
  "plusMonths d n =
     (let i = monthIndex d + n; y = i div 12; m = nat (i mod 12) + 1
      in d\<lparr>year := y, month := m, day := min (day d) (daysInMonth y m)\<rparr>)"

definition dt_less :: "DateTime \<Rightarrow> DateTime \<Rightarrow> bool" where
  "dt_less a b =
     (monthIndex a < monthIndex b \<or> (monthIndex a = monthIndex b \<and>
       (day a < day b \<or> (day a = day b \<and>
         (hour a < hour b \<or> (hour a = hour b \<and>
           (minute a < minute b \<or> (minute a = minute b \<and>
             (second a < second b \<or> (second a = second b \<and> millisecond a < millisecond b))))))))))"

text \<open>
  The loop of \<open>Interval.splitBy({month: 1})\<close> on the interval from \<open>start\<close> to \<open>e\<close>:
  \<^verbatim>\<open>while (s < e) { added = start.plus(idx months); next = added > e ? e : added;
               results.push([s, next]); s = next; idx += 1 }\<close>
  It ends because the month of \<open>added\<close> grows with \<open>idx\<close> and passes the month of \<open>e\<close>.
\<close>

function splitBy_loop :: "DateTime \<Rightarrow> DateTime \<Rightarrow> DateTime \<Rightarrow> nat \<Rightarrow> (DateTime \<times> DateTime) list" where
  "splitBy_loop start e s idx =
     (if dt_less s e then
        (let added = plusMonths start (int idx);
             next = (if dt_less e added then e else added)
         in (s, next) # splitBy_loop start e next (idx + 1))
      else [])"
  by pat_completeness auto
termination
proof (relation "measure (\<lambda>(start, e, s, idx).
          if dt_less s e then Suc (nat (monthIndex e + 1 - monthIndex start - int idx)) else 0)",
       goal_cases)
  case 1
  show ?case by simp
next
  case (2 start e s idx added nxt)
  have irrefl: "\<not> dt_less e e" by (simp add: dt_less_def)
  have mi: "monthIndex added = monthIndex start + int idx"
    using 2(2) by (simp add: plusMonths_def monthIndex_def Let_def)
  show ?case
  proof (cases "dt_less e added")
    case True
    then show ?thesis using 2 irrefl by simp
  next
    case False
    then have "monthIndex added \<le> monthIndex e" by (auto simp: dt_less_def)
    then show ?thesis using 2 False mi by auto
  qed
qed

text \<open>
  \<open>Interval.fromDateTimes(startDate, endDate).splitBy({month: 1})\<close>: an interval with an
  invalid date, or with its end before its start, is invalid and splits into nothing.
\<close>

definition Interval_splitBy_month :: "DateTime option \<Rightarrow> DateTime option \<Rightarrow> (DateTime \<times> DateTime) list" where
  "Interval_splitBy_month startDate endDate =
     (case (startDate, endDate) of
        (Some s, Some e) \<Rightarrow> if dt_less e s then [] else splitBy_loop s e s 1
      | _ \<Rightarrow> [])"

subsection \<open>Numbers and dates as text\<close>

definition digit_char :: "nat \<Rightarrow> char" where
  "digit_char n = ''0123456789'' ! n"

fun string_of_nat :: "nat \<Rightarrow> string" where
  "string_of_nat n = (if n < 10 then [digit_char n] else string_of_nat (n div 10) @ [digit_char (n mod 10)])"

declare string_of_nat.simps [simp del]

definition string_of_int :: "int \<Rightarrow> string" where
  "string_of_int i = (if i < 0 then CHR ''-'' # string_of_nat (nat (- i)) else string_of_nat (nat i))"

text \<open>The library's padding of a number with zeros to \<open>n\<close> digits, the sign in front.\<close>

definition padStart :: "int \<Rightarrow> nat \<Rightarrow> string" where
  "padStart input n =
     (let digits = string_of_nat (nat \<bar>input\<bar>);
          padded = replicate (n - length digits) CHR ''0'' @ digits
      in if input < 0 then CHR ''-'' # padded else padded)"

definition digit_val :: "char \<Rightarrow> nat option" where
  "digit_val c = (let n = (of_char c :: nat) in if 48 \<le> n \<and> n \<le> 57 then Some (n - 48) else None)"

definition digits_val :: "string \<Rightarrow> nat option" where
  "digits_val cs =
     (if cs = [] then None
      else fold (\<lambda>c acc. case acc of None \<Rightarrow> None
                         | Some a \<Rightarrow> map_option (\<lambda>d. a * 10 + d) (digit_val c)) cs (Some 0))"

text \<open>
  \<open>DateTime.fromISO(s, {zone: "utc"})\<close>; \<open>None\<close> is an invalid \<open>DateTime\<close>. The model reads
  the extended format in UTC, \<open>YYYY-MM-DDTHH:MM:SSZ\<close> with optional milliseconds
  \<open>.fff\<close>; the other forms of ISO 8601 that the library reads (a date alone, an offset
  other than \<open>Z\<close>) are outside the model. The same parser stands for \<open>new Date(s)\<close> on the
  write path.
\<close>

definition fromISO :: "string \<Rightarrow> DateTime option" where
  "fromISO s =
     (if ((length s = 20 \<and> drop 19 s = ''Z'') \<or> (length s = 24 \<and> s ! 19 = CHR ''.'' \<and> drop 23 s = ''Z''))
         \<and> [s ! 4, s ! 7, s ! 10, s ! 13, s ! 16] = ''--T::''
      then
        Option.bind (digits_val (take 4 s)) (\<lambda>y.
        Option.bind (digits_val (take 2 (drop 5 s))) (\<lambda>mo.
        Option.bind (digits_val (take 2 (drop 8 s))) (\<lambda>d.
        Option.bind (digits_val (take 2 (drop 11 s))) (\<lambda>h.
        Option.bind (digits_val (take 2 (drop 14 s))) (\<lambda>mi.
        Option.bind (digits_val (take 2 (drop 17 s))) (\<lambda>sec.
        Option.bind (if length s = 24 then digits_val (take 3 (drop 20 s)) else Some 0) (\<lambda>ms.
          let dt = \<lparr>year = int y, month = mo, day = d, hour = h, minute = mi, second = sec,
                     millisecond = ms\<rparr>
          in if isValid dt then Some dt else None)))))))
      else None)"

text \<open>
  \<open>d.toISO()\<close> in UTC: \<open>YYYY-MM-DDTHH:MM:SS.fffZ\<close>, with a signed year of six digits outside
  the years 0 to 9999.
\<close>

definition toISO :: "DateTime \<Rightarrow> string" where
  "toISO d =
     (let longFormat = (year d > 9999 \<or> year d < 0) in
      (if longFormat \<and> year d \<ge> 0 then ''+'' else [])
      @ padStart (year d) (if longFormat then 6 else 4) @ ''-''
      @ padStart (int (month d)) 2 @ ''-'' @ padStart (int (day d)) 2 @ ''T''
      @ padStart (int (hour d)) 2 @ '':'' @ padStart (int (minute d)) 2 @ '':''
      @ padStart (int (second d)) 2 @ ''.'' @ padStart (int (millisecond d)) 3 @ ''Z'')"

text \<open>\<open>d.toFormat("yyyy")\<close> and \<open>d.toFormat("LL")\<close>.\<close>

definition toFormat_yyyy :: "DateTime \<Rightarrow> string" where
  "toFormat_yyyy d = padStart (year d) 4"

definition toFormat_LL :: "DateTime \<Rightarrow> string" where
  "toFormat_LL d = padStart (int (month d)) 2"

text \<open>
  \<open>s.replace(/pat/g, rep)\<close> for a pattern without special characters: every occurrence,
  from the left. The replacement is taken literally (a \<open>$\<close> in it is outside the model).
\<close>

fun replace_all :: "string \<Rightarrow> string \<Rightarrow> string \<Rightarrow> string" where
  "replace_all pat rep [] = []"
| "replace_all pat rep (c # cs) =
     (if pat \<noteq> [] \<and> take (length pat) (c # cs) = pat
      then rep @ replace_all pat rep (drop (length pat - 1) cs)
      else c # replace_all pat rep cs)"

text \<open>\<open>xs.join(sep)\<close>\<close>

fun join :: "string \<Rightarrow> string list \<Rightarrow> string" where
  "join sep [] = []"
| "join sep [x] = x"
| "join sep (x # y # ys) = x @ sep @ join sep (y # ys)"

subsection \<open>The engine and its index names\<close>

text \<open>
  The fields of \<open>OpenSearchEngine\<close> that the functions below read (\<open>_indexPattern\<close>,
  \<open>_defaultStartMonthsAgo\<close>, \<open>_defaultPageSize\<close>), with their defaults.
\<close>

record engine =
  indexPattern :: string
  defaultStartMonthsAgo :: nat
  defaultPageSize :: nat

definition default_engine :: engine where
  "default_engine = \<lparr>indexPattern = ''actions_{companyId}_{year}_{month}'',
     defaultStartMonthsAgo = 6, defaultPageSize = 25\<rparr>"

text \<open>JavaScript truthiness of an optional string: absent and empty are falsy.\<close>

definition truthy_str :: "string option \<Rightarrow> bool" where
  "truthy_str s = (case s of None \<Rightarrow> False | Some x \<Rightarrow> x \<noteq> [])"

text \<open>
  \<open>getIndexName(action)\<close>, from the action's \<open>timestamp\<close> and \<open>companyId\<close>: the year as it
  prints, the month with a leading zero; an unreadable timestamp gives \<open>NaN\<close> for both.
\<close>

definition getIndexName :: "engine \<Rightarrow> string \<Rightarrow> string option \<Rightarrow> string" where
  "getIndexName this timestamp companyId =
     (let y = (case fromISO timestamp of None \<Rightarrow> ''NaN'' | Some d \<Rightarrow> string_of_int (year d));
          m = (case fromISO timestamp of None \<Rightarrow> ''NaN'' | Some d \<Rightarrow> string_of_nat (month d));
          m = (if length m = 1 then CHR ''0'' # m else m)
      in replace_all ''{month}'' m
           (replace_all ''{year}'' y
             (replace_all ''{companyId}'' (case companyId of None \<Rightarrow> [] | Some c \<Rightarrow> c)
                (indexPattern this))))"

text \<open>
  \<open>getIndexNameRange({companyId, start, end})\<close>. The clock is the argument \<open>now\<close>; the
  two readings of the clock in one call are taken to be the same instant. Every bucket
  \<open>d\<close> of the split is named after \<open>d.end\<close> (\<open>snd d\<close>).
\<close>

definition getIndexNameRange :: "engine \<Rightarrow> DateTime \<Rightarrow> string \<Rightarrow> string option \<Rightarrow> string option \<Rightarrow> string" where
  "getIndexNameRange this now companyId start end =
     (let startDate = (if truthy_str start then fromISO (the start)
                       else Some (plusMonths now (- int (defaultStartMonthsAgo this))));
          endDate = (if truthy_str end then fromISO (the end) else Some now)
      in join '',''
           (map (\<lambda>d. replace_all ''{month}'' (toFormat_LL (snd d))
                      (replace_all ''{year}'' (toFormat_yyyy (snd d))
                        (replace_all ''{companyId}'' companyId (indexPattern this))))
              (Interval_splitBy_month startDate endDate)))"


section \<open>The filter compiler\<close>

text \<open>
  A query clause of the search engine's language, as the object literals of
  \<open>buildFindManyQuery\<close> build it: \<open>{term: {f: v}}\<close>, \<open>{terms: {f: [..]}}\<close>,
  \<open>{range: {f: {gte, lt}}}\<close>, \<open>{nested: {path, query}}\<close>, \<open>{bool: {must: [..]}}\<close> and
  \<open>{bool: {should: [..]}}\<close>.
\<close>

datatype clause =
    QTerm string json
  | QTerms string "json list"
  | QRange string "(string \<times> json) list"
  | QNested string clause
  | QBoolMust "clause list"
  | QBoolShould "clause list"

text \<open>A filter value that is one item or an array of items: \<open>Array.isArray(x) ? x : [x]\<close>.\<close>

datatype 'a one_or_many = One 'a | Many "'a list"

fun asArray :: "'a one_or_many \<Rightarrow> 'a list" where
  "asArray (One x) = [x]"
| "asArray (Many xs) = xs"

type_synonym kvmap = "(string \<times> string) list"

record framework_filter =
  fw_name :: "string option"
  fw_version :: "string option"

record action_filter =
  act_id :: "string option"
  act_type :: "string option"
  act_verb :: "string option"
  act_object :: "string option"

text \<open>The candidates of \<open>agents\<close> and of \<open>targets\<close> have the same shape.\<close>

record agent_filter =
  ag_id :: "string option"
  ag_type :: "string option"
  ag_name :: "string option"
  ag_meta :: "kvmap option"

record change_filter =
  ch_model :: "string option"
  ch_operation :: "string option"
  ch_id :: "string option"
  ch_path :: "string option"
  ch_before :: "string option"
  ch_after :: "string option"
  ch_meta :: "kvmap option"

text \<open>
  A property of a request filter is a scalar, or an object (\<open>typeof request[key] === "object"\<close>)
  that names the children to match under the parent \<open>key\<close>.
\<close>

datatype request_value = ReqScalar string | ReqParent kvmap

record response_filter =
  rs_status :: "string one_or_many option"
  rs_time_gte :: "int option"
  rs_time_lt :: "int option"
  rs_body :: "kvmap one_or_many option"
  rs_headers :: "kvmap one_or_many option"

record filters =
  f_companyId :: string
  f_start :: "string option"
  f_end :: "string option"
  f_id :: "string one_or_many option"
  f_clientId :: "string one_or_many option"
  f_app :: "string one_or_many option"
  f_environment :: "string one_or_many option"
  f_sessionId :: "string one_or_many option"
  f_traceIds :: "string one_or_many option"
  f_framework :: "framework_filter one_or_many option"
  f_action :: "action_filter one_or_many option"
  f_agents :: "agent_filter one_or_many option"
  f_targets :: "agent_filter one_or_many option"
  f_request :: "(string \<times> request_value) list one_or_many option"
  f_response :: "response_filter option"
  f_changes :: "change_filter one_or_many option"
  f_meta :: "kvmap one_or_many option"
  f_query :: "string option"

record find_options =
  page :: "nat option"
  limit :: "nat option"
  sortBy :: "string option"
  sortDirection :: "string option"

text \<open>Property access by name, for the loops over lists of keys (\<open>filters[key]\<close>).\<close>

definition filters_get :: "filters \<Rightarrow> string \<Rightarrow> string one_or_many option" where
  "filters_get f key =
     (if key = ''id'' then f_id f
      else if key = ''clientId'' then f_clientId f
      else if key = ''app'' then f_app f
      else if key = ''environment'' then f_environment f
      else if key = ''sessionId'' then f_sessionId f
      else if key = ''traceIds'' then f_traceIds f
      else None)"

definition framework_get :: "framework_filter \<Rightarrow> string \<Rightarrow> string option" where
  "framework_get x key =
     (if key = ''name'' then fw_name x else if key = ''version'' then fw_version x else None)"

definition action_get :: "action_filter \<Rightarrow> string \<Rightarrow> string option" where
  "action_get x key =
     (if key = ''id'' then act_id x
      else if key = ''type'' then act_type x
      else if key = ''verb'' then act_verb x
      else if key = ''object'' then act_object x
      else None)"

definition agent_get :: "agent_filter \<Rightarrow> string \<Rightarrow> string option" where
  "agent_get x key =
     (if key = ''id'' then ag_id x
      else if key = ''type'' then ag_type x
      else if key = ''name'' then ag_name x
      else None)"

definition change_get :: "change_filter \<Rightarrow> string \<Rightarrow> string option" where
  "change_get x key =
     (if key = ''model'' then ch_model x
      else if key = ''operation'' then ch_operation x
      else if key = ''id'' then ch_id x
      else if key = ''path'' then ch_path x
      else if key = ''before'' then ch_before x
      else if key = ''after'' then ch_after x
      else None)"

text \<open>JavaScript truthiness of an optional string, and of a string or array of strings.\<close>

definition truthy_strs :: "string one_or_many option \<Rightarrow> bool" where
  "truthy_strs v = (case v of None \<Rightarrow> False | Some (One x) \<Rightarrow> x \<noteq> [] | Some (Many xs) \<Rightarrow> True)"

definition truthy_num :: "int option \<Rightarrow> bool" where
  "truthy_num n = (case n of None \<Rightarrow> False | Some x \<Rightarrow> x \<noteq> 0)"

text \<open>
  The collapse that the source writes out at every group:
  \<open>xs.length === 1 ? xs[0] : {bool: {must: xs}}\<close> (or \<open>should\<close>), and its guarded push
  \<open>if (xs.length === 1) ys.push(xs[0]); else if (xs.length) ys.push({bool: ..})\<close>, which
  pushes nothing for an empty group.
\<close>

definition collapse :: "(clause list \<Rightarrow> clause) \<Rightarrow> clause list \<Rightarrow> clause" where
  "collapse wrap xs = (case xs of [x] \<Rightarrow> x | _ \<Rightarrow> wrap xs)"

definition push_collapsed :: "(clause list \<Rightarrow> clause) \<Rightarrow> clause list \<Rightarrow> clause list" where
  "push_collapsed wrap xs = (if xs = [] then [] else [collapse wrap xs])"

text \<open>One \<open>term\<close> per populated key of a candidate, in the order of the key list.\<close>

definition field_terms :: "(string \<Rightarrow> string) \<Rightarrow> (string \<Rightarrow> string option) \<Rightarrow> string list \<Rightarrow> clause list" where
  "field_terms field get keys =
     concat (map (\<lambda>key. if truthy_str (get key) then [QTerm (field key) (JStr (the (get key)))] else [])
               keys)"

text \<open>The bounds of the timestamp range; \<open>toISO()\<close> of an invalid date is \<open>null\<close>.\<close>

definition iso_or_null :: "DateTime option \<Rightarrow> json" where
  "iso_or_null d = (case d of None \<Rightarrow> JNull | Some x \<Rightarrow> JStr (toISO x))"

definition timestamp_gte :: "engine \<Rightarrow> DateTime \<Rightarrow> filters \<Rightarrow> json" where
  "timestamp_gte this now f =
     (if truthy_str (f_start f) then iso_or_null (fromISO (the (f_start f)))
      else iso_or_null (Some (plusMonths now (- int (defaultStartMonthsAgo this)))))"

definition timestamp_lt :: "DateTime \<Rightarrow> filters \<Rightarrow> json" where
  "timestamp_lt now f =
     (if truthy_str (f_end f) then iso_or_null (fromISO (the (f_end f)))
      else iso_or_null (Some now))"

definition scalar_clauses :: "filters \<Rightarrow> clause list" where
  "scalar_clauses f =
     concat (map (\<lambda>key. if truthy_strs (filters_get f key)
                         then [QTerms key (map JStr (asArray (the (filters_get f key))))]
                         else [])
               [''id'', ''clientId'', ''app'', ''environment'', ''sessionId'', ''traceIds''])"

definition frameworkMust :: "framework_filter \<Rightarrow> clause list" where
  "frameworkMust framework =
     field_terms (\<lambda>key. ''framework.'' @ key) (framework_get framework) [''name'', ''version'']"

definition frameworkShould :: "framework_filter list \<Rightarrow> clause list" where
  "frameworkShould frameworks =
     concat (map (\<lambda>framework. push_collapsed QBoolMust (frameworkMust framework)) frameworks)"

definition framework_clauses :: "filters \<Rightarrow> clause list" where
  "framework_clauses f =
     (case f_framework f of
        None \<Rightarrow> []
      | Some v \<Rightarrow> push_collapsed QBoolShould (frameworkShould (asArray v)))"

definition actionMust :: "action_filter \<Rightarrow> clause list" where
  "actionMust action =
     field_terms (\<lambda>key. ''action.'' @ (if key = ''object'' then ''object.keyword'' else key))
       (action_get action) [''id'', ''type'', ''verb'', ''object'']"

definition actionShould :: "action_filter list \<Rightarrow> clause list" where
  "actionShould actions =
     concat (map (\<lambda>action. push_collapsed QBoolMust (actionMust action)) actions)"

definition action_clauses :: "filters \<Rightarrow> clause list" where
  "action_clauses f =
     (case f_action f of
        None \<Rightarrow> []
      | Some v \<Rightarrow> push_collapsed QBoolShould (actionShould (asArray v)))"

text \<open>
  The terms of a \<open>meta\<close> sub-filter of an agents, targets or changes candidate: for each
  key, in turn, the key term and the value term are pushed on the one list
  \<open>agentMetaMust\<close> (\<open>targetMetaMust\<close>, \<open>changeMetaMust\<close>).
\<close>

definition entityMetaMust :: "string \<Rightarrow> kvmap \<Rightarrow> clause list" where
  "entityMetaMust path meta =
     concat (map (\<lambda>(key, v). [QTerm (path @ ''.meta.key'') (JStr key),
                               QTerm (path @ ''.meta.value.keyword'') (JStr v)]) meta)"

text \<open>
  \<open>if (agent.meta && Object.keys(agent.meta).length) { .. if (agentMetaMust.length)
  agentMust.push({nested: {path: "agents.meta", query: ..}}) }\<close>
\<close>

definition entity_meta_clauses :: "string \<Rightarrow> kvmap option \<Rightarrow> clause list" where
  "entity_meta_clauses path meta =
     (case meta of
        None \<Rightarrow> []
      | Some kvs \<Rightarrow>
          if kvs \<noteq> [] then
            (let metaMust = entityMetaMust path kvs
             in if metaMust \<noteq> [] then [QNested (path @ ''.meta'') (collapse QBoolMust metaMust)]
                else [])
          else [])"

text \<open>The agents and the targets sections are the same code on the paths \<open>agents\<close> and \<open>targets\<close>.\<close>

definition agentMust :: "string \<Rightarrow> agent_filter \<Rightarrow> clause list" where
  "agentMust path agent =
     field_terms (\<lambda>key. path @ ''.'' @ key) (agent_get agent) [''id'', ''type'', ''name'']
     @ entity_meta_clauses path (ag_meta agent)"

definition agentShould :: "string \<Rightarrow> agent_filter list \<Rightarrow> clause list" where
  "agentShould path agents =
     concat (map (\<lambda>agent. push_collapsed QBoolMust (agentMust path agent)) agents)"

definition nested_should :: "string \<Rightarrow> clause list \<Rightarrow> clause list" where
  "nested_should path should =
     (if should \<noteq> [] then [QNested path (collapse QBoolShould should)] else [])"

definition agents_clauses :: "filters \<Rightarrow> clause list" where
  "agents_clauses f =
     (case f_agents f of
        None \<Rightarrow> []
      | Some v \<Rightarrow> nested_should ''agents'' (agentShould ''agents'' (asArray v)))"

definition targets_clauses :: "filters \<Rightarrow> clause list" where
  "targets_clauses f =
     (case f_targets f of
        None \<Rightarrow> []
      | Some v \<Rightarrow> nested_should ''targets'' (agentShould ''targets'' (asArray v)))"

definition requestMust :: "(string \<times> request_value) list \<Rightarrow> clause list" where
  "requestMust request =
     concat (map (\<lambda>(key, v).
        case v of
          ReqParent children \<Rightarrow>
            map (\<lambda>(innerKey, w).
                   QNested ''request''
                     (QBoolMust [QTerm ''request.key'' (JStr innerKey),
                                 QTerm ''request.parent'' (JStr key),
                                 QTerm ''request.value.keyword'' (JStr w)])) children
        | ReqScalar w \<Rightarrow>
            [QNested ''request''
               (QBoolMust [QTerm ''request.key'' (JStr key),
                           QTerm ''request.value.keyword'' (JStr w)])]) request)"

definition requestShould :: "(string \<times> request_value) list list \<Rightarrow> clause list" where
  "requestShould requests =
     concat (map (\<lambda>request. push_collapsed QBoolMust (requestMust request)) requests)"

definition request_clauses :: "filters \<Rightarrow> clause list" where
  "request_clauses f =
     (case f_request f of
        None \<Rightarrow> []
      | Some v \<Rightarrow> push_collapsed QBoolShould (requestShould (asArray v)))"

text \<open>
  \<open>response.body\<close> and \<open>response.headers\<close>: all the key and value terms of one map go
  into one list, under one \<open>nested\<close> clause.
\<close>

definition responseMapMust :: "string \<Rightarrow> kvmap \<Rightarrow> clause list" where
  "responseMapMust path m =
     concat (map (\<lambda>(key, v). [QTerm (path @ ''.key'') (JStr key),
                               QTerm (path @ ''.value.keyword'') (JStr v)]) m)"

definition responseMapShould :: "string \<Rightarrow> kvmap list \<Rightarrow> clause list" where
  "responseMapShould path ms =
     concat (map (\<lambda>m. let must = responseMapMust path m
                       in if must \<noteq> [] then [QNested path (collapse QBoolMust must)] else []) ms)"

definition response_map_clauses :: "string \<Rightarrow> kvmap one_or_many option \<Rightarrow> clause list" where
  "response_map_clauses path v =
     (case v of
        None \<Rightarrow> []
      | Some x \<Rightarrow> push_collapsed QBoolShould (responseMapShould path (asArray x)))"

definition responseMust :: "response_filter \<Rightarrow> clause list" where
  "responseMust r =
     (if truthy_strs (rs_status r) then
        (case the (rs_status r) of
           Many xs \<Rightarrow> [QTerms ''response.status'' (map JStr xs)]
         | One x \<Rightarrow> [QTerm ''response.status'' (JStr x)])
      else [])
     @ (if truthy_num (rs_time_gte r) \<or> truthy_num (rs_time_lt r) then
          [QRange ''response.time''
             ((if truthy_num (rs_time_gte r) then [(''gte'', JNum (the (rs_time_gte r)))] else [])
              @ (if truthy_num (rs_time_lt r) then [(''lt'', JNum (the (rs_time_lt r)))] else []))]
        else [])
     @ response_map_clauses ''response.body'' (rs_body r)
     @ response_map_clauses ''response.headers'' (rs_headers r)"

definition response_clauses :: "filters \<Rightarrow> clause list" where
  "response_clauses f =
     (case f_response f of
        None \<Rightarrow> []
      | Some r \<Rightarrow> push_collapsed QBoolMust (responseMust r))"

definition changeMust :: "change_filter \<Rightarrow> clause list" where
  "changeMust change =
     field_terms (\<lambda>key. ''changes.'' @ (if key \<in> set [''path'', ''before'', ''after'']
                                          then key @ ''.keyword'' else key))
       (change_get change) [''model'', ''operation'', ''id'', ''path'', ''before'', ''after'']
     @ entity_meta_clauses ''changes'' (ch_meta change)"

definition changesShould :: "change_filter list \<Rightarrow> clause list" where
  "changesShould changes =
     concat (map (\<lambda>change. push_collapsed QBoolMust (changeMust change)) changes)"

definition changes_clauses :: "filters \<Rightarrow> clause list" where
  "changes_clauses f =
     (case f_changes f of
        None \<Rightarrow> []
      | Some v \<Rightarrow> nested_should ''changes'' (changesShould (asArray v)))"

text \<open>The top-level \<open>meta\<close> filter: one \<open>nested\<close> clause for each key of a map.\<close>

definition metaMust :: "kvmap \<Rightarrow> clause list" where
  "metaMust meta =
     map (\<lambda>(key, v). QNested ''meta''
                        (QBoolMust [QTerm ''meta.key'' (JStr key),
                                    QTerm ''meta.value.keyword'' (JStr v)])) meta"

definition metaShould :: "kvmap list \<Rightarrow> clause list" where
  "metaShould metas = concat (map (\<lambda>meta. push_collapsed QBoolMust (metaMust meta)) metas)"

definition meta_clauses :: "filters \<Rightarrow> clause list" where
  "meta_clauses f =
     (case f_meta f of
        None \<Rightarrow> []
      | Some v \<Rightarrow> push_collapsed QBoolShould (metaShould (asArray v)))"

text \<open>
  \<open>buildFindManyQuery(options, filters)\<close>: the array \<open>must\<close>, to which every section pushes
  in the order of the source. The clock (\<open>DateTime.fromObject({}, {zone: "utc"})\<close>) is the
  argument \<open>now\<close>. The function never reads \<open>filters.query\<close>, nor \<open>options\<close>.
\<close>

definition buildFindManyQuery :: "engine \<Rightarrow> DateTime \<Rightarrow> find_options \<Rightarrow> filters \<Rightarrow> clause list" where
  "buildFindManyQuery this now options f =
     [QTerm ''companyId'' (JStr (f_companyId f)),
      QRange ''timestamp'' [(''gte'', timestamp_gte this now f), (''lt'', timestamp_lt now f)]]
     @ scalar_clauses f
     @ framework_clauses f
     @ action_clauses f
     @ agents_clauses f
     @ targets_clauses f
     @ request_clauses f
     @ response_clauses f
     @ changes_clauses f
     @ meta_clauses f"

text \<open>A filter with nothing but the company.\<close>

definition only_company :: "string \<Rightarrow> filters" where
  "only_company c =
     \<lparr>f_companyId = c, f_start = None, f_end = None, f_id = None, f_clientId = None,
      f_app = None, f_environment = None, f_sessionId = None, f_traceIds = None,
      f_framework = None, f_action = None, f_agents = None, f_targets = None,
      f_request = None, f_response = None, f_changes = None, f_meta = None, f_query = None\<rparr>"



section \<open>The document codec\<close>

subsection \<open>\<open>JSON.stringify\<close> and cycle breaking on values without sharing\<close>

text \<open>
  JavaScript truthiness of a value: \<open>undefined\<close>, \<open>null\<close>, \<open>false\<close>, \<open>0\<close> and the empty
  string are falsy, every object and array is truthy.
\<close>

fun truthy_json :: "json \<Rightarrow> bool" where
  "truthy_json JUndefined = False"
| "truthy_json JNull = False"
| "truthy_json (JBool b) = b"
| "truthy_json (JNum n) = (n \<noteq> 0)"
| "truthy_json (JStr s) = (s \<noteq> [])"
| "truthy_json (JArr xs) = True"
| "truthy_json (JObj kvs) = True"

definition hex_char :: "nat \<Rightarrow> char" where
  "hex_char n = ''0123456789abcdef'' ! n"

text \<open>
  The escapes of \<open>JSON.stringify\<close> for a code unit below 256: the quote, the backslash,
  the short escapes and \<open>\u00XX\<close> for the other control characters.
\<close>

definition escape_char :: "char \<Rightarrow> string" where
  "escape_char c =
     (let n = (of_char c :: nat) in
      if n = 34 then [CHR 0x5C, CHR 0x22]
      else if n = 92 then [CHR 0x5C, CHR 0x5C]
      else if n = 8 then CHR 0x5C # ''b''
      else if n = 12 then CHR 0x5C # ''f''
      else if n = 10 then CHR 0x5C # ''n''
      else if n = 13 then CHR 0x5C # ''r''
      else if n = 9 then CHR 0x5C # ''t''
      else if n < 32 then CHR 0x5C # ''u00'' @ [hex_char (n div 16), hex_char (n mod 16)]
      else [c])"

definition quote :: "string \<Rightarrow> string" where
  "quote s = CHR 0x22 # concat (map escape_char s) @ [CHR 0x22]"

text \<open>
  \<open>JSON.stringify(v)\<close>: \<open>None\<close> is the result \<open>undefined\<close>. An \<open>undefined\<close> element of an
  array is written \<open>null\<close>, an \<open>undefined\<close> property of an object is left out.
\<close>

fun JSON_stringify :: "json \<Rightarrow> string option" where
  "JSON_stringify JUndefined = None"
| "JSON_stringify JNull = Some ''null''"
| "JSON_stringify (JBool b) = Some (if b then ''true'' else ''false'')"
| "JSON_stringify (JNum n) = Some (string_of_int n)"
| "JSON_stringify (JStr s) = Some (quote s)"
| "JSON_stringify (JArr xs) =
     Some (''['' @ join '',''
             (map (\<lambda>x. case JSON_stringify x of None \<Rightarrow> ''null'' | Some s \<Rightarrow> s) xs) @ '']'')"
| "JSON_stringify (JObj kvs) =
     Some (''{'' @ join '',''
             (concat (map (\<lambda>kv. case JSON_stringify (snd kv) of
                                    None \<Rightarrow> []
                                  | Some s \<Rightarrow> [quote (fst kv) @ '':'' @ s]) kvs)) @ ''}'')"

text \<open>
  \<open>removeSensitiveKeys\<close> on a value without a cycle, given as a tree: no property and no
  element is reference-identical to an ancestor, so the tests against \<open>parents\<close> and
  \<open>object\<close> are false throughout and the traversal rebuilds the value, leaving out the
  properties named in \<open>keys\<close>. This is the function the codec applies to the leaves of an
  Action before \<open>JSON.stringify\<close>. Lemma \<open>breakCircularReferences_acyclic\<close> below relates
  it to the function on the heap: with no sensitive key, a value that \<open>tree_of\<close> reads as
  \<open>j\<close> is returned as \<open>j\<close>.
\<close>

fun removeSensitiveKeys_json :: "json \<Rightarrow> string list \<Rightarrow> json" where
  "removeSensitiveKeys_json (JArr xs) keys = JArr (map (\<lambda>elem. removeSensitiveKeys_json elem keys) xs)"
| "removeSensitiveKeys_json (JObj kvs) keys =
     JObj (concat (map (\<lambda>kv. if fst kv \<in> set keys then []
                               else [(fst kv, removeSensitiveKeys_json (snd kv) keys)]) kvs))"
| "removeSensitiveKeys_json v keys = v"

definition breakCircularReferences_json :: "json \<Rightarrow> json" where
  "breakCircularReferences_json v = removeSensitiveKeys_json v []"

text \<open>\<open>typeof value === "string" ? value : JSON.stringify(breakCircularReferences(value))\<close>\<close>

definition stringify_leaf :: "json \<Rightarrow> string option" where
  "stringify_leaf v =
     (case v of JStr s \<Rightarrow> Some s | _ \<Rightarrow> JSON_stringify (breakCircularReferences_json v))"

subsection \<open>Actions and storage documents\<close>

text \<open>
  The Action of the application and the document of the search engine have the same
  fields; they differ in the type \<open>'m\<close> of a metadata field (a map from keys to values,
  or a list of \<open>{key, value}\<close> records), in the type \<open>'b\<close> of \<open>before\<close> and \<open>after\<close> of a
  change, and in the type \<open>'r\<close> of \<open>request\<close>. An optional field that is absent or
  \<open>undefined\<close> is \<open>None\<close>.
\<close>

record kv =
  kv_key :: string
  kv_value :: "string option"

record request_entry =
  rq_key :: string
  rq_parent :: "string option"
  rq_value :: "string option"

record framework_r =
  framework_name :: "string option"
  framework_version :: "string option"

record action_core =
  core_id :: "string option"
  core_type :: string
  core_verb :: string
  core_object :: "string option"

record 'm agent_r =
  agent_id :: "string option"
  agent_type :: string
  agent_name :: "string option"
  agent_meta :: "'m option"

record 'm response_r =
  response_status :: "string option"
  response_time :: "int option"
  response_body :: "'m option"
  response_headers :: "'m option"

record ('m, 'b) change_r =
  change_model :: string
  change_operation :: string
  change_id :: "string option"
  change_path :: "string option"
  change_before :: "'b option"
  change_after :: "'b option"
  change_meta :: "'m option"

record cost_component =
  component_type :: "string option"
  component_key :: string
  component_amount :: int

record 'm cost_r =
  cost_amount :: int
  cost_currency :: string
  cost_components :: "cost_component list option"
  cost_meta :: "'m option"

record ('m, 'b, 'r) action_r =
  a_id :: "string option"
  a_timestamp :: string
  a_companyId :: "string option"
  a_clientId :: "string option"
  a_app :: "string option"
  a_environment :: "string option"
  a_framework :: "framework_r option"
  a_sessionId :: "string option"
  a_traceIds :: "string list option"
  a_action :: action_core
  a_agents :: "'m agent_r list"
  a_targets :: "'m agent_r list option"
  a_request :: "'r option"
  a_response :: "'m response_r option"
  a_changes :: "('m, 'b) change_r list option"
  a_cost :: "'m cost_r option"
  a_meta :: "'m option"

type_synonym metadata = "(string \<times> json) list"

type_synonym Action = "(metadata, json, (string \<times> json) list) action_r"

type_synonym OpenSearchAction = "(kv list, string, request_entry list) action_r"

datatype error = TypeError | ValidationError | TransportError

subsection \<open>The map and list codec (\<open>utils.ts\<close>)\<close>

definition transformObjectToArray :: "metadata option \<Rightarrow> kv list option" where
  "transformObjectToArray obj =
     (case obj of
        None \<Rightarrow> None
      | Some entries \<Rightarrow>
          Some (map (\<lambda>(key, v). \<lparr>kv_key = key, kv_value = stringify_leaf v\<rparr>) entries))"

text \<open>A stored value read back as a JavaScript value.\<close>

definition js_string :: "string option \<Rightarrow> json" where
  "js_string v = (case v of None \<Rightarrow> JUndefined | Some s \<Rightarrow> JStr s)"

text \<open>
  The \<open>reduce\<close> with \<open>obj[item.key] = item.value\<close>: an assignment replaces the value of a
  key that is there and appends a key that is not.
\<close>

definition transformArrayToObject :: "kv list option \<Rightarrow> metadata option" where
  "transformArrayToObject arr =
     (case arr of
        None \<Rightarrow> None
      | Some items \<Rightarrow>
          Some (fold (\<lambda>item obj. AList.update (kv_key item) (js_string (kv_value item)) obj)
                  items []))"

subsection \<open>\<open>serialize\<close>\<close>

definition serialize_agent :: "metadata agent_r \<Rightarrow> kv list agent_r" where
  "serialize_agent agent =
     \<lparr>agent_id = agent_id agent, agent_type = agent_type agent, agent_name = agent_name agent,
      agent_meta = transformObjectToArray (agent_meta agent)\<rparr>"

text \<open>
  The flattening of \<open>request\<close>: the callback of \<open>flatMap\<close>, then the \<open>filter\<close> that
  keeps the entries with a truthy \<open>value\<close>. For a property that is an object (not
  \<open>null\<close>, not an array) every child gives an entry with \<open>parent\<close>; the value of a
  child that is not a string is \<open>JSON.stringify(breakCircularReferences(value))\<close>, where
  \<open>value\<close> is the property (the parent object), as the source has it.
\<close>

definition nested_value :: "json \<Rightarrow> json \<Rightarrow> string option" where
  "nested_value v nestedValue =
     (case nestedValue of
        JStr s \<Rightarrow> Some s
      | _ \<Rightarrow> JSON_stringify (breakCircularReferences_json v))"

definition request_entries :: "string \<Rightarrow> json \<Rightarrow> request_entry list" where
  "request_entries key v =
     (case v of
        JObj children \<Rightarrow>
          map (\<lambda>(nestedKey, nestedValue).
                 \<lparr>rq_key = nestedKey, rq_parent = Some key,
                  rq_value = nested_value v nestedValue\<rparr>) children
      | _ \<Rightarrow> [\<lparr>rq_key = key, rq_parent = None, rq_value = stringify_leaf v\<rparr>])"

definition serialize_request :: "(string \<times> json) list \<Rightarrow> request_entry list" where
  "serialize_request request =
     filter (\<lambda>v. truthy_str (rq_value v))
       (concat (map (\<lambda>(key, v). request_entries key v) request))"

definition serialize_response :: "metadata response_r \<Rightarrow> kv list response_r" where
  "serialize_response response =
     \<lparr>response_status = response_status response, response_time = response_time response,
      response_body = transformObjectToArray (response_body response),
      response_headers = transformObjectToArray (response_headers response)\<rparr>"

text \<open>\<open>change.before ? (typeof change.before === "string" ? .. : JSON.stringify(..)) : undefined\<close>\<close>

definition serialize_before :: "json option \<Rightarrow> string option" where
  "serialize_before b =
     (case b of
        None \<Rightarrow> None
      | Some v \<Rightarrow> if truthy_json v then stringify_leaf v else None)"

definition serialize_change :: "(metadata, json) change_r \<Rightarrow> (kv list, string) change_r" where
  "serialize_change change =
     \<lparr>change_model = change_model change, change_operation = change_operation change,
      change_id = change_id change, change_path = change_path change,
      change_before = serialize_before (change_before change),
      change_after = serialize_before (change_after change),
      change_meta = transformObjectToArray (change_meta change)\<rparr>"

definition serialize_cost :: "metadata cost_r \<Rightarrow> kv list cost_r" where
  "serialize_cost cost =
     \<lparr>cost_amount = cost_amount cost, cost_currency = cost_currency cost,
      cost_components = cost_components cost,
      cost_meta = transformObjectToArray (cost_meta cost)\<rparr>"

definition serialize :: "Action \<Rightarrow> OpenSearchAction" where
  "serialize action =
     \<lparr>a_id = a_id action, a_timestamp = a_timestamp action, a_companyId = a_companyId action,
      a_clientId = a_clientId action, a_app = a_app action,
      a_environment = a_environment action, a_framework = a_framework action,
      a_sessionId = a_sessionId action, a_traceIds = a_traceIds action,
      a_action = a_action action,
      a_agents = map serialize_agent (a_agents action),
      a_targets = map_option (map serialize_agent) (a_targets action),
      a_request = map_option serialize_request (a_request action),
      a_response = map_option serialize_response (a_response action),
      a_changes = map_option (map serialize_change) (a_changes action),
      a_cost = map_option serialize_cost (a_cost action),
      a_meta = transformObjectToArray (a_meta action)\<rparr>"

subsection \<open>\<open>deserialize\<close>\<close>

definition deserialize_agent :: "kv list agent_r \<Rightarrow> metadata agent_r" where
  "deserialize_agent agent =
     \<lparr>agent_id = agent_id agent, agent_type = agent_type agent, agent_name = agent_name agent,
      agent_meta = transformArrayToObject (agent_meta agent)\<rparr>"

text \<open>
  One step of the \<open>reduce\<close> that rebuilds \<open>request\<close>. An entry without a truthy \<open>parent\<close>
  is a top-level property. Otherwise \<open>obj[item.parent]\<close> is set to \<open>{}\<close> when it is falsy,
  and the entry becomes a property of it; when \<open>obj[item.parent]\<close> is a non-empty string,
  the assignment to a property of a primitive throws a \<open>TypeError\<close> (a class body is
  strict code).
\<close>

definition deserialize_request_step ::
    "request_entry \<Rightarrow> (string \<times> json) list \<Rightarrow> error + (string \<times> json) list" where
  "deserialize_request_step item obj =
     (if \<not> truthy_str (rq_parent item)
      then Inr (AList.update (rq_key item) (js_string (rq_value item)) obj)
      else
        (let parent = the (rq_parent item);
             obj' = (if \<not> (case map_of obj parent of None \<Rightarrow> False | Some v \<Rightarrow> truthy_json v)
                     then AList.update parent (JObj []) obj else obj)
         in case map_of obj' parent of
              Some (JObj children) \<Rightarrow>
                Inr (AList.update parent
                       (JObj (AList.update (rq_key item) (js_string (rq_value item)) children)) obj')
            | _ \<Rightarrow> Inl TypeError))"

fun deserialize_request :: "request_entry list \<Rightarrow> (string \<times> json) list \<Rightarrow> error + (string \<times> json) list" where
  "deserialize_request [] obj = Inr obj"
| "deserialize_request (item # items) obj =
     (case deserialize_request_step item obj of
        Inl e \<Rightarrow> Inl e
      | Inr obj' \<Rightarrow> deserialize_request items obj')"

text \<open>
  \<open>{...action.response, ...(body ? {body: transformArrayToObject(body)} : {}), ..}\<close>: an
  absent \<open>body\<close> stays absent.
\<close>

definition deserialize_response :: "kv list response_r \<Rightarrow> metadata response_r" where
  "deserialize_response response =
     \<lparr>response_status = response_status response, response_time = response_time response,
      response_body = transformArrayToObject (response_body response),
      response_headers = transformArrayToObject (response_headers response)\<rparr>"

definition deserialize_change :: "(kv list, string) change_r \<Rightarrow> (metadata, json) change_r" where
  "deserialize_change change =
     \<lparr>change_model = change_model change, change_operation = change_operation change,
      change_id = change_id change, change_path = change_path change,
      change_before = map_option JStr (change_before change),
      change_after = map_option JStr (change_after change),
      change_meta = transformArrayToObject (change_meta change)\<rparr>"

definition deserialize_cost :: "kv list cost_r \<Rightarrow> metadata cost_r" where
  "deserialize_cost cost =
     \<lparr>cost_amount = cost_amount cost, cost_currency = cost_currency cost,
      cost_components = cost_components cost,
      cost_meta = transformArrayToObject (cost_meta cost)\<rparr>"

definition deserialize :: "OpenSearchAction \<Rightarrow> error + Action" where
  "deserialize action =
     (case (case a_request action of
              None \<Rightarrow> Inr None
            | Some items \<Rightarrow> map_sum id Some (deserialize_request items [])) of
        Inl e \<Rightarrow> Inl e
      | Inr request \<Rightarrow>
          Inr \<lparr>a_id = a_id action, a_timestamp = a_timestamp action,
               a_companyId = a_companyId action, a_clientId = a_clientId action,
               a_app = a_app action, a_environment = a_environment action,
               a_framework = a_framework action, a_sessionId = a_sessionId action,
               a_traceIds = a_traceIds action, a_action = a_action action,
               a_agents = map deserialize_agent (a_agents action),
               a_targets = map_option (map deserialize_agent) (a_targets action),
               a_request = request,
               a_response = map_option deserialize_response (a_response action),
               a_changes = map_option (map deserialize_change) (a_changes action),
               a_cost = map_option deserialize_cost (a_cost action),
               a_meta = transformArrayToObject (a_meta action)\<rparr>)"


subsection \<open>The round trip, as the specification states it\<close>

text \<open>
  The definitions of this subsection follow the words of the specification, not the
  source: "\<open>deserialize(serialize(a))\<close> equals \<open>a\<close> in keys and string-valued leaves;
  non-string leaves in metadata are replaced by their JSON-string form on both sides
  (idempotent once stringified)".

  The JSON-string form of a leaf: a string is itself, any other value is its JSON text.
\<close>

definition json_string_form :: "json \<Rightarrow> json" where
  "json_string_form v = (case v of JStr s \<Rightarrow> JStr s | _ \<Rightarrow> js_string (JSON_stringify v))"

definition stringified_meta :: "metadata \<Rightarrow> metadata" where
  "stringified_meta m = map (\<lambda>(k, v). (k, json_string_form v)) m"

text \<open>Two metadata maps agree when they are equal once both sides are in JSON-string form.\<close>

definition meta_agrees :: "metadata option \<Rightarrow> metadata option \<Rightarrow> bool" where
  "meta_agrees m m' = (map_option stringified_meta m' = map_option stringified_meta m)"

text \<open>
  Elsewhere the claim is about keys and string-valued leaves: a leaf that is a string is
  the same string on the other side; an object has the same keys on the other side.
\<close>

definition leaf_agrees :: "json \<Rightarrow> json \<Rightarrow> bool" where
  "leaf_agrees v v' = (case v of JStr s \<Rightarrow> v' = JStr s | _ \<Rightarrow> True)"

definition object_agrees :: "(string \<times> json) list \<Rightarrow> (string \<times> json) list \<Rightarrow> bool" where
  "object_agrees kvs kvs' =
     (map fst kvs = map fst kvs' \<and> list_all2 leaf_agrees (map snd kvs) (map snd kvs'))"

definition request_value_agrees :: "json \<Rightarrow> json \<Rightarrow> bool" where
  "request_value_agrees v v' =
     (case v of
        JStr s \<Rightarrow> v' = JStr s
      | JObj kvs \<Rightarrow> (case v' of JObj kvs' \<Rightarrow> object_agrees kvs kvs' | _ \<Rightarrow> False)
      | _ \<Rightarrow> True)"

definition request_agrees :: "(string \<times> json) list \<Rightarrow> (string \<times> json) list \<Rightarrow> bool" where
  "request_agrees r r' =
     (map fst r = map fst r' \<and> list_all2 request_value_agrees (map snd r) (map snd r'))"

definition before_agrees :: "json option \<Rightarrow> json option \<Rightarrow> bool" where
  "before_agrees b b' =
     ((b = None) = (b' = None) \<and> (case b of Some (JStr s) \<Rightarrow> b' = Some (JStr s) | _ \<Rightarrow> True))"

definition agent_agrees :: "metadata agent_r \<Rightarrow> metadata agent_r \<Rightarrow> bool" where
  "agent_agrees x y =
     (agent_id x = agent_id y \<and> agent_type x = agent_type y \<and> agent_name x = agent_name y
      \<and> meta_agrees (agent_meta x) (agent_meta y))"

definition response_agrees :: "metadata response_r \<Rightarrow> metadata response_r \<Rightarrow> bool" where
  "response_agrees x y =
     (response_status x = response_status y \<and> response_time x = response_time y
      \<and> meta_agrees (response_body x) (response_body y)
      \<and> meta_agrees (response_headers x) (response_headers y))"

definition change_agrees :: "(metadata, json) change_r \<Rightarrow> (metadata, json) change_r \<Rightarrow> bool" where
  "change_agrees x y =
     (change_model x = change_model y \<and> change_operation x = change_operation y
      \<and> change_id x = change_id y \<and> change_path x = change_path y
      \<and> before_agrees (change_before x) (change_before y)
      \<and> before_agrees (change_after x) (change_after y)
      \<and> meta_agrees (change_meta x) (change_meta y))"

definition cost_agrees :: "metadata cost_r \<Rightarrow> metadata cost_r \<Rightarrow> bool" where
  "cost_agrees x y =
     (cost_amount x = cost_amount y \<and> cost_currency x = cost_currency y
      \<and> cost_components x = cost_components y \<and> meta_agrees (cost_meta x) (cost_meta y))"

definition action_agrees :: "Action \<Rightarrow> Action \<Rightarrow> bool" where
  "action_agrees x y =
     (a_id x = a_id y \<and> a_timestamp x = a_timestamp y \<and> a_companyId x = a_companyId y
      \<and> a_clientId x = a_clientId y \<and> a_app x = a_app y \<and> a_environment x = a_environment y
      \<and> a_framework x = a_framework y \<and> a_sessionId x = a_sessionId y
      \<and> a_traceIds x = a_traceIds y \<and> a_action x = a_action y
      \<and> list_all2 agent_agrees (a_agents x) (a_agents y)
      \<and> rel_option (list_all2 agent_agrees) (a_targets x) (a_targets y)
      \<and> rel_option request_agrees (a_request x) (a_request y)
      \<and> rel_option response_agrees (a_response x) (a_response y)
      \<and> rel_option (list_all2 change_agrees) (a_changes x) (a_changes y)
      \<and> rel_option cost_agrees (a_cost x) (a_cost y)
      \<and> meta_agrees (a_meta x) (a_meta y))"

text \<open>
  The claim for one Action: the round trip returns, its result agrees with the Action,
  and a second round trip returns the same result.
\<close>

definition round_trip :: "Action \<Rightarrow> bool" where
  "round_trip a =
     (case deserialize (serialize a) of
        Inl e \<Rightarrow> False
      | Inr a' \<Rightarrow> action_agrees a a' \<and> deserialize (serialize a') = Inr a')"


















text \<open>An Action with the required fields alone.\<close>

definition bare_action :: Action where
  "bare_action =
     \<lparr>a_id = None, a_timestamp = ''2024-07-01T00:00:00Z'', a_companyId = None,
      a_clientId = None, a_app = None, a_environment = None, a_framework = None,
      a_sessionId = None, a_traceIds = None,
      a_action = \<lparr>core_id = None, core_type = ''HTTP'', core_verb = ''GET'', core_object = None\<rparr>,
      a_agents = [], a_targets = None, a_request = None,
      a_response = None, a_changes = None, a_cost = None, a_meta = None\<rparr>"




section \<open>Validation and the write path\<close>

subsection \<open>\<open>OpenSearchActionSchema\<close> (\<open>action.ts\<close>)\<close>

text \<open>
  The input of \<open>create\<close> and \<open>createMany\<close> is any JavaScript value; the schema decides
  whether it is a storage document. A schema is the predicate "\<open>parse\<close> does not
  throw". \<open>z.object\<close> accepts an object whose listed properties satisfy their schemas
  (other properties are allowed), \<open>.optional()\<close> accepts \<open>undefined\<close> as well, and the
  value of an absent property is \<open>undefined\<close>.
\<close>

type_synonym schema = "json \<Rightarrow> bool"

definition js_get :: "(string \<times> json) list \<Rightarrow> string \<Rightarrow> json" where
  "js_get kvs k = (case map_of kvs k of None \<Rightarrow> JUndefined | Some v \<Rightarrow> v)"

definition z_string :: schema where
  "z_string v = (case v of JStr _ \<Rightarrow> True | _ \<Rightarrow> False)"

definition z_number :: schema where
  "z_number v = (case v of JNum _ \<Rightarrow> True | _ \<Rightarrow> False)"

definition z_optional :: "schema \<Rightarrow> schema" where
  "z_optional p v = (v = JUndefined \<or> p v)"

definition z_array :: "schema \<Rightarrow> schema" where
  "z_array p v = (case v of JArr xs \<Rightarrow> list_all p xs | _ \<Rightarrow> False)"

definition z_object :: "(string \<times> schema) list \<Rightarrow> schema" where
  "z_object shape v =
     (case v of JObj kvs \<Rightarrow> list_all (\<lambda>(k, p). p (js_get kvs k)) shape | _ \<Rightarrow> False)"

definition kv_schema :: schema where
  "kv_schema = z_object [(''key'', z_string), (''value'', z_string)]"

definition agent_schema :: schema where
  "agent_schema =
     z_object [(''id'', z_optional z_string), (''type'', z_string),
               (''name'', z_optional z_string), (''meta'', z_optional (z_array kv_schema))]"

definition OpenSearchActionSchema :: schema where
  "OpenSearchActionSchema =
     z_object
       [(''id'', z_optional z_string),
        (''timestamp'', z_string),
        (''companyId'', z_optional z_string),
        (''clientId'', z_optional z_string),
        (''app'', z_optional z_string),
        (''environment'', z_optional z_string),
        (''framework'', z_optional (z_object [(''name'', z_optional z_string),
                                              (''version'', z_optional z_string)])),
        (''sessionId'', z_optional z_string),
        (''traceIds'', z_optional (z_array z_string)),
        (''action'', z_object [(''id'', z_optional z_string), (''type'', z_string),
                               (''verb'', z_string), (''object'', z_optional z_string)]),
        (''agents'', z_array agent_schema),
        (''targets'', z_optional (z_array agent_schema)),
        (''request'', z_optional (z_array (z_object
            [(''key'', z_string), (''parent'', z_optional z_string), (''value'', z_string)]))),
        (''response'', z_optional (z_object
            [(''status'', z_optional z_string), (''time'', z_optional z_number),
             (''body'', z_optional (z_array kv_schema)),
             (''headers'', z_optional (z_array kv_schema))])),
        (''changes'', z_optional (z_array (z_object
            [(''model'', z_string), (''operation'', z_string), (''id'', z_optional z_string),
             (''path'', z_optional z_string), (''before'', z_optional z_string),
             (''after'', z_optional z_string), (''meta'', z_optional (z_array kv_schema))]))),
        (''cost'', z_optional (z_object
            [(''amount'', z_number), (''currency'', z_string),
             (''components'', z_optional (z_array (z_object
                 [(''type'', z_optional z_string), (''key'', z_string),
                  (''amount'', z_number)]))),
             (''meta'', z_optional (z_array kv_schema))])),
        (''meta'', z_optional (z_array kv_schema))]"

subsection \<open>The client and the two write operations\<close>

text \<open>
  The requests that reach the search client, in the order they are issued. The client is
  outside the repository: \<open>accepts\<close> says whether it resolves a request or rejects it.
  \<open>v4 i\<close> is the result of the \<open>i\<close>-th call of the UUID generator within one operation.
\<close>

datatype client_call =
    IndexCall json string json bool
  | BulkCall "json list"

type_synonym client = "client_call \<Rightarrow> bool"

text \<open>\<open>{...action, id: action.id || id}\<close> for an action that is an object.\<close>

definition with_id :: "(string \<times> json) list \<Rightarrow> string \<Rightarrow> (string \<times> json) list" where
  "with_id action uuid =
     AList.update ''id''
       (if truthy_json (js_get action ''id'') then js_get action ''id'' else JStr uuid) action"

text \<open>\<open>getIndexName(action)\<close> on the validated input: \<open>action.companyId || ""\<close>.\<close>

definition action_index :: "engine \<Rightarrow> (string \<times> json) list \<Rightarrow> string" where
  "action_index this action =
     getIndexName this (case js_get action ''timestamp'' of JStr t \<Rightarrow> t | _ \<Rightarrow> [])
       (case js_get action ''companyId'' of JStr c \<Rightarrow> Some c | _ \<Rightarrow> None)"

definition create ::
    "engine \<Rightarrow> (nat \<Rightarrow> string) \<Rightarrow> client \<Rightarrow> client_call list \<Rightarrow> json \<Rightarrow>
       (error + json) \<times> client_call list" where
  "create this v4 accepts calls action =
     (if \<not> OpenSearchActionSchema action then (Inl ValidationError, calls)
      else
        (case action of
           JObj kvs \<Rightarrow>
             (let body = with_id kvs (v4 0);
                  call = IndexCall (js_get body ''id'') (action_index this kvs) (JObj body) True
              in if accepts call then (Inr (JObj body), calls @ [call])
                 else (Inl TransportError, calls @ [call]))
         | _ \<Rightarrow> (Inl ValidationError, calls)))"

text \<open>
  The \<open>forEach\<close> of \<open>createMany\<close>: \<open>parse\<close> throws at the first action that does not
  validate; otherwise the action's header and body are pushed on \<open>bulk\<close> and the body on
  \<open>dbActions\<close>. \<open>i\<close> counts the calls of the UUID generator.
\<close>

fun createMany_loop ::
    "engine \<Rightarrow> (nat \<Rightarrow> string) \<Rightarrow> json list \<Rightarrow> nat \<Rightarrow> json list \<Rightarrow> json list \<Rightarrow>
       error + (json list \<times> json list)" where
  "createMany_loop this v4 [] i bulk dbActions = Inr (bulk, dbActions)"
| "createMany_loop this v4 (action # actions) i bulk dbActions =
     (if \<not> OpenSearchActionSchema action then Inl ValidationError
      else
        (case action of
           JObj kvs \<Rightarrow>
             (let body = with_id kvs (v4 i)
              in createMany_loop this v4 actions (i + 1)
                   (bulk @ [JObj [(''index'', JObj [(''_index'', JStr (action_index this kvs)),
                                                     (''_id'', js_get body ''id'')])],
                            JObj body])
                   (dbActions @ [JObj body]))
         | _ \<Rightarrow> Inl ValidationError))"

definition createMany ::
    "engine \<Rightarrow> (nat \<Rightarrow> string) \<Rightarrow> client \<Rightarrow> client_call list \<Rightarrow> json list \<Rightarrow>
       (error + json list) \<times> client_call list" where
  "createMany this v4 accepts calls actions =
     (case createMany_loop this v4 actions 0 [] [] of
        Inl e \<Rightarrow> (Inl e, calls)
      | Inr (bulk, dbActions) \<Rightarrow>
          if accepts (BulkCall bulk) then (Inr dbActions, calls @ [BulkCall bulk])
          else (Inl TransportError, calls @ [BulkCall bulk]))"

text \<open>A smallest document that validates, with the given \<open>id\<close> property.\<close>

definition minimal_action :: "json \<Rightarrow> json" where
  "minimal_action i =
     JObj [(''id'', i), (''timestamp'', JStr ''2024-07-01T00:00:00Z''),
           (''action'', JObj [(''type'', JStr ''HTTP''), (''verb'', JStr ''GET'')]),
           (''agents'', JArr [])]"

text \<open>\<open>x\<close> with the property \<open>id\<close> set to \<open>i\<close>: the document the claim expects back.\<close>

definition set_id :: "json \<Rightarrow> json \<Rightarrow> json" where
  "set_id i x = (case x of JObj kvs \<Rightarrow> JObj (AList.update ''id'' i kvs) | _ \<Rightarrow> x)"

text \<open>
  The body and the bulk header that the \<open>i\<close>-th action of a batch gives:
  \<open>{...action, id: action.id || id}\<close> and \<open>{index: {_index, _id: body.id}}\<close>.
\<close>

definition action_body :: "(nat \<Rightarrow> string) \<Rightarrow> nat \<Rightarrow> json \<Rightarrow> json" where
  "action_body v4 i action =
     (case action of JObj kvs \<Rightarrow> JObj (with_id kvs (v4 i)) | _ \<Rightarrow> action)"

definition bulk_header :: "engine \<Rightarrow> (nat \<Rightarrow> string) \<Rightarrow> nat \<Rightarrow> json \<Rightarrow> json" where
  "bulk_header this v4 i action =
     (case action of
        JObj kvs \<Rightarrow>
          JObj [(''index'', JObj [(''_index'', JStr (action_index this kvs)),
                                  (''_id'', js_get (with_id kvs (v4 i)) ''id'')])]
      | _ \<Rightarrow> action)"

text \<open>A generator that always returns the same UUID, and a client that resolves every request.\<close>

definition sample_v4 :: "nat \<Rightarrow> string" where
  "sample_v4 i = ''3b241101-e2bb-4255-8caf-4136c566a962''"

definition always_accepts :: client where
  "always_accepts call = True"


section \<open>Cycle breaking\<close>

lemma removeSensitiveKeys_self_array:
  "removeSensitiveKeys fuel heap_self_array (VRef 0) keys parents = None"
  by (induction fuel arbitrary: parents) (simp_all add: heap_self_array_def)

lemma breakCircularReferences_self_object:
  "breakCircularReferences 1 heap_self_object (VRef 0) [] = Some (JObj [(''a'', JNum 1)])"
  by (simp add: breakCircularReferences_def heap_self_object_def)

text \<open>The two tests of the repository with a cycle through an object and through an array.\<close>

lemma breakCircularReferences_nested_cycle:
  "breakCircularReferences 2 heap_nested_cycle (VRef 0) [] =
     Some (JObj [(''a'', JNum 1), (''b'', JStr ''two''), (''c'', JNull),
                 (''d'', JObj [(''c'', JNum 3), (''f'', JStr ''four'')])])"
  by (simp add: breakCircularReferences_def heap_nested_cycle_def numeral_2_eq_2)

lemma breakCircularReferences_cycle_in_array:
  "breakCircularReferences 1 heap_cycle_in_array (VRef 0) [] =
     Some (JObj [(''a'', JNum 1), (''b'', JStr ''two''), (''c'', JNull), (''d'', JArr [])])"
  by (simp add: breakCircularReferences_def heap_cycle_in_array_def)

text \<open>
  An array element that is an ancestor other than the parent is not left out: the filter
  on the elements looks at the parent alone, and the element comes back as a copy without
  its cyclic property.
\<close>

lemma breakCircularReferences_ancestor_in_array:
  "breakCircularReferences 3 heap_ancestor_in_array (VRef 0) [] =
     Some (JObj [(''a'', JObj [(''d'', JArr [JObj []])])])"
  by (simp add: breakCircularReferences_def heap_ancestor_in_array_def numeral_3_eq_3)

text \<open>
  A cycle through an array in an array is never seen: the outer array is not among the
  parents, and the elements of the inner array are not tested.
\<close>

lemma removeSensitiveKeys_cycle_in_nested_array:
  "1 \<notin> set parents \<Longrightarrow>
   removeSensitiveKeys fuel heap_cycle_in_nested_array (VRef 0) [] parents = None
   \<and> removeSensitiveKeys fuel heap_cycle_in_nested_array (VRef 2) [] parents = None"
proof (induction fuel arbitrary: parents)
  case 0
  then show ?case by simp
next
  case (Suc fuel)
  have 0: "removeSensitiveKeys fuel heap_cycle_in_nested_array (VRef 0) [] (parents @ [2]) = None"
    using Suc.IH [of "parents @ [2]"] Suc.prems by simp
  have 2: "removeSensitiveKeys fuel heap_cycle_in_nested_array (VRef 2) [] (parents @ [0]) = None"
    using Suc.IH [of "parents @ [0]"] Suc.prems by simp
  have h: "heap_cycle_in_nested_array 0 = CObject [(''d'', VRef 1)]"
    "heap_cycle_in_nested_array 1 = CArray [VRef 2]"
    "heap_cycle_in_nested_array 2 = CArray [VRef 0]"
    by (simp_all add: heap_cycle_in_nested_array_def)
  show ?case
    using Suc.prems by (simp add: h 0 2 del: One_nat_def)
qed

lemma breakCircularReferences_cycle_in_nested_array:
  "breakCircularReferences fuel heap_cycle_in_nested_array (VRef 0) [] = None"
  using removeSensitiveKeys_cycle_in_nested_array [of "[]" fuel]
  by (simp add: breakCircularReferences_def)

text \<open>
  C6 (fails on the code). The claim says that \<open>breakCircularReferences\<close> returns for every
  input, cycles through arrays included. For the array that contains itself the top-level
  array branch recurses into every element without looking at \<open>parents\<close>: whatever the
  depth allowed, the call has not returned.
\<close>

theorem breakCircularReferences_self_array_never_returns:
  "breakCircularReferences fuel heap_self_array (VRef 0) [] = None"
  unfolding breakCircularReferences_def by (rule removeSensitiveKeys_self_array)


subsection \<open>Values without a cycle are returned unchanged\<close>

lemma those_map_Some:
  "those (map f xs) = Some ys \<longleftrightarrow> list_all2 (\<lambda>x y. f x = Some y) xs ys"
proof (induction xs arbitrary: ys)
  case Nil
  then show ?case by auto
next
  case (Cons x xs)
  show ?case
  proof (cases "f x")
    case None
    then show ?thesis by (auto simp: list_all2_Cons1)
  next
    case (Some y)
    then show ?thesis
      using Cons.IH by (cases "those (map f xs)") (auto simp: list_all2_Cons1)
  qed
qed

lemma tree_of_mono:
  "tree_of n h v = Some j \<Longrightarrow> n \<le> m \<Longrightarrow> tree_of m h v = Some j"
proof (induction n arbitrary: v j m)
  case 0
  then show ?case by (cases v) simp_all
next
  case (Suc n)
  show ?case
  proof (cases v)
    case (VRef a)
    from Suc.prems obtain m' where m: "m = Suc m'" and le: "n \<le> m'"
      by (cases m) simp_all
    show ?thesis
    proof (cases "h a")
      case (CObject props)
      from Suc.prems(1) VRef CObject obtain kvs where j: "j = JObj kvs"
        and kvs: "list_all2 (\<lambda>x y. (case x of (key, v) \<Rightarrow> map_option (Pair key) (tree_of n h v)) = Some y) props kvs"
        by (auto simp: those_map_Some)
      have "list_all2 (\<lambda>x y. (case x of (key, v) \<Rightarrow> map_option (Pair key) (tree_of m' h v)) = Some y) props kvs"
        using kvs
      proof (rule list.rel_mono_strong)
        fix x y
        assume "(case x of (key, v) \<Rightarrow> map_option (Pair key) (tree_of n h v)) = Some y"
        then show "(case x of (key, v) \<Rightarrow> map_option (Pair key) (tree_of m' h v)) = Some y"
          using Suc.IH [OF _ le] by (cases x) auto
      qed
      then show ?thesis
        using VRef CObject j m by (simp add: those_map_Some [symmetric])
    next
      case (CArray elems)
      from Suc.prems(1) VRef CArray obtain js where j: "j = JArr js"
        and js: "list_all2 (\<lambda>x y. tree_of n h x = Some y) elems js"
        by (auto simp: those_map_Some)
      have "list_all2 (\<lambda>x y. tree_of m' h x = Some y) elems js"
        using js by (rule list.rel_mono_strong) (rule Suc.IH [OF _ le])
      then show ?thesis
        using VRef CArray j m by (simp add: those_map_Some [symmetric])
    qed
  qed (use Suc.prems in simp_all)
qed

lemma tree_of_None_mono: "tree_of m h v = None \<Longrightarrow> n \<le> m \<Longrightarrow> tree_of n h v = None"
  using tree_of_mono [of n h v _ m] by (cases "tree_of n h v") auto

lemma tree_of_children:
  assumes "tree_of (Suc k) h (VRef a) = Some j" and "v \<in> values_at h a"
  shows "\<exists>jv. tree_of k h v = Some jv"
proof (cases "h a")
  case (CObject props)
  from assms(1) CObject obtain kvs where
    kvs: "list_all2 (\<lambda>x y. (case x of (key, v) \<Rightarrow> map_option (Pair key) (tree_of k h v)) = Some y) props kvs"
    by (auto simp: those_map_Some)
  from assms(2) CObject obtain key where "(key, v) \<in> set props"
    by (auto simp: values_at_def)
  then obtain i where i: "i < length props" "props ! i = (key, v)"
    by (auto simp: in_set_conv_nth)
  with kvs have "map_option (Pair key) (tree_of k h v) = Some (kvs ! i)"
    by (auto simp: list_all2_conv_all_nth)
  then show ?thesis by auto
next
  case (CArray elems)
  from assms(1) CArray obtain js where
    js: "list_all2 (\<lambda>x y. tree_of k h x = Some y) elems js"
    by (auto simp: those_map_Some)
  from assms(2) CArray obtain i where "i < length elems" "elems ! i = v"
    by (auto simp: values_at_def in_set_conv_nth)
  with js show ?thesis
    by (auto simp: list_all2_conv_all_nth)
qed

text \<open>
  A value that can be read is read with some least fuel, and with that fuel no object or
  array that holds it can be read: a holder needs more.
\<close>

lemma tree_of_least:
  assumes "tree_of m h v = Some j"
  shows "\<exists>m0 \<le> m. tree_of m0 h v = Some j \<and> (\<forall>a. v \<in> values_at h a \<longrightarrow> tree_of m0 h (VRef a) = None)"
proof (cases v)
  case (VRef r)
  have "\<exists>k < m. tree_of (Suc k) h (VRef r) = Some j \<and> tree_of k h (VRef r) = None"
    using assms [unfolded VRef]
  proof (induction m)
    case 0
    then show ?case by simp
  next
    case (Suc m)
    show ?case
    proof (cases "tree_of m h (VRef r)")
      case None
      with Suc.prems show ?thesis by auto
    next
      case (Some j')
      with Suc.prems tree_of_mono [of m h "VRef r" j' "Suc m"] have "j' = j" by simp
      with Some Suc.IH show ?thesis by (auto intro: less_SucI)
    qed
  qed
  then obtain k where k: "k < m" "tree_of (Suc k) h (VRef r) = Some j" "tree_of k h (VRef r) = None"
    by blast
  have "tree_of (Suc k) h (VRef a) = None" if "VRef r \<in> values_at h a" for a
  proof (cases "tree_of (Suc k) h (VRef a)")
    case (Some ja)
    from tree_of_children [OF Some that] k(3) show ?thesis by simp
  qed simp
  with k VRef show ?thesis
    by (intro exI [of _ "Suc k"]) auto
qed (use assms in \<open>auto intro!: exI [of _ 0]\<close>)

lemma update_fresh: "k \<notin> fst ` set xs \<Longrightarrow> AList.update k v xs = xs @ [(k, v)]"
  by (induction xs) auto

text \<open>
  For a value without a cycle in a heap whose objects have distinct property names: with
  no sensitive key, and with parents that are not below the value, \<open>removeSensitiveKeys\<close>
  returns the value itself.
\<close>

lemma removeSensitiveKeys_acyclic:
  assumes wf: "heap_wf h"
  shows "tree_of m h v = Some j \<Longrightarrow> \<forall>p \<in> set parents. tree_of m h (VRef p) = None \<Longrightarrow> m \<le> fuel
    \<Longrightarrow> removeSensitiveKeys fuel h v [] parents = Some j"
proof (induction m arbitrary: v j parents fuel rule: less_induct)
  case (less m)
  show ?case
  proof (cases v)
    case (VRef a)
    from less.prems(1) VRef obtain m' where m: "m = Suc m'"
      by (cases m) simp_all
    with less.prems(3) obtain f' where fuel: "fuel = Suc f'" and le: "m' \<le> f'"
      by (cases fuel) simp_all
    have tree: "tree_of (Suc m') h (VRef a) = Some j"
      using less.prems(1) VRef m by simp
    have below: "removeSensitiveKeys f' h e [] (parents @ [a]) = Some je \<and> e \<noteq> VRef a
        \<and> \<not> is_circular parents a e"
      if e: "tree_of m0 h e = Some je" and m0: "m0 \<le> m'" and a: "tree_of m0 h (VRef a) = None"
      for e je m0
    proof -
      have ps: "tree_of m0 h (VRef p) = None" if "p \<in> set parents" for p
      proof (rule tree_of_None_mono)
        show "tree_of m h (VRef p) = None" using less.prems(2) that by blast
        show "m0 \<le> m" using m0 m by simp
      qed
      have "removeSensitiveKeys f' h e [] (parents @ [a]) = Some je"
        using less.IH [of m0 e je "parents @ [a]" f'] e m0 m le ps a by auto
      moreover have "e \<noteq> VRef a"
        using e a by auto
      moreover have "\<not> is_circular parents a e"
        using e a ps by (cases e) auto
      ultimately show ?thesis by simp
    qed
    have child: "removeSensitiveKeys f' h e [] (parents @ [a]) = Some je \<and> e \<noteq> VRef a
        \<and> \<not> is_circular parents a e"
      if e: "tree_of m' h e = Some je" and c: "e \<in> values_at h a" for e je
    proof -
      from tree_of_least [OF e] c obtain m0 where "m0 \<le> m'" "tree_of m0 h e = Some je"
        "tree_of m0 h (VRef a) = None" by blast
      then show ?thesis by (intro below)
    qed
    have grandchild: "those (map (\<lambda>elem. removeSensitiveKeys f' h elem [] (parents @ [a]))
          (filter (\<lambda>elem. elem \<noteq> VRef a) elems)) = Some js"
      if e: "tree_of m' h (VRef r) = Some (JArr js)" and c: "VRef r \<in> values_at h a"
        and r: "h r = CArray elems" for r elems js
    proof -
      from tree_of_least [OF e] c obtain m0 where m0: "m0 \<le> m'" "tree_of m0 h (VRef r) = Some (JArr js)"
        "tree_of m0 h (VRef a) = None" by blast
      then obtain k where k: "m0 = Suc k" by (cases m0) simp_all
      from m0(2) r k have js: "list_all2 (\<lambda>x y. tree_of k h x = Some y) elems js"
        by (auto simp: those_map_Some)
      have a: "tree_of k h (VRef a) = None"
        by (rule tree_of_None_mono [OF m0(3)]) (simp add: k)
      have each: "removeSensitiveKeys f' h x [] (parents @ [a]) = Some y \<and> x \<noteq> VRef a"
        if "tree_of k h x = Some y" for x y
        using below [OF that _ a] m0(1) k by simp
      have "filter (\<lambda>elem. elem \<noteq> VRef a) elems = elems"
      proof (rule filter_True, rule ballI)
        fix x assume "x \<in> set elems"
        then obtain i where "i < length elems" "elems ! i = x"
          by (auto simp: in_set_conv_nth)
        with js have "tree_of k h x = Some (js ! i)"
          by (auto simp: list_all2_conv_all_nth)
        with each show "x \<noteq> VRef a" by blast
      qed
      moreover have "list_all2 (\<lambda>x y. removeSensitiveKeys f' h x [] (parents @ [a]) = Some y) elems js"
        using js by (rule list.rel_mono_strong) (use each in blast)
      ultimately show ?thesis by (simp add: those_map_Some)
    qed
    show ?thesis
    proof (cases "h a")
      case (CArray elems)
      from tree CArray obtain js where j: "j = JArr js"
        and js: "list_all2 (\<lambda>x y. tree_of m' h x = Some y) elems js"
        by (auto simp: those_map_Some)
      have "list_all2 (\<lambda>x y. removeSensitiveKeys f' h x [] (parents @ [a]) = Some y) elems js"
        using js
      proof (rule list.rel_mono_strong)
        fix x y assume "x \<in> set elems" and "tree_of m' h x = Some y"
        then show "removeSensitiveKeys f' h x [] (parents @ [a]) = Some y"
          using child [of x y] CArray by (simp add: values_at_def)
      qed
      then show ?thesis
        using VRef fuel CArray j by (simp add: those_map_Some [symmetric])
    next
      case (CObject props)
      define F where "F = (\<lambda>(key :: string, v) acc.
              case acc of
                None \<Rightarrow> None
              | Some sanitized \<Rightarrow>
                  if is_circular parents a v then Some sanitized
                  else if v = VNull \<or> v = VUndefined
                    then Some (AList.update key (prim_json v) sanitized)
                  else (case v of
                       VRef r \<Rightarrow>
                         (case h r of
                            CArray elems \<Rightarrow>
                              map_option (\<lambda>js. AList.update key (JArr js) sanitized)
                                (those (map (\<lambda>elem. removeSensitiveKeys f' h elem [] (parents @ [a]))
                                   (filter (\<lambda>elem. elem \<noteq> VRef a) elems)))
                          | CObject _ \<Rightarrow>
                              map_option (\<lambda>j. AList.update key j sanitized)
                                (removeSensitiveKeys f' h v [] (parents @ [a])))
                     | _ \<Rightarrow> Some (AList.update key (prim_json v) sanitized)))"
      have unfold: "removeSensitiveKeys fuel h v [] parents = map_option JObj (fold F props (Some []))"
        using VRef fuel CObject by (simp add: F_def)
      from tree CObject obtain kvs where j: "j = JObj kvs"
        and kvs: "list_all2 (\<lambda>x y. (case x of (key, v) \<Rightarrow> map_option (Pair key) (tree_of m' h v)) = Some y) props kvs"
        by (auto simp: those_map_Some)
      have step: "F (key, x) (Some acc) = Some (AList.update key jx acc)"
        if x: "tree_of m' h x = Some jx" and c: "x \<in> values_at h a" for key x jx acc
      proof (cases x)
        case (VRef r)
        note cx = child [OF x c]
        show ?thesis
        proof (cases "h r")
          case (CObject ps)
          then show ?thesis
            using cx VRef by (simp add: F_def)
        next
          case (CArray elems)
          from x VRef CArray have "\<exists>js. jx = JArr js"
            by (cases m') auto
          then obtain js where jx: "jx = JArr js" ..
          from grandchild [OF x [unfolded VRef jx] c [unfolded VRef] CArray] show ?thesis
            using cx VRef CArray jx by (simp add: F_def)
        qed
      qed (use x in \<open>simp_all add: F_def\<close>)
      have dist: "distinct (map fst props)"
        using wf CObject by (auto simp: heap_wf_def split: cell.splits dest: spec [of _ a])
      have "fold F ps (Some acc) = Some (acc @ kvs')"
        if "list_all2 (\<lambda>x y. (case x of (key, v) \<Rightarrow> map_option (Pair key) (tree_of m' h v)) = Some y) ps kvs'"
          and "distinct (map fst ps)" and "fst ` set ps \<inter> fst ` set acc = {}"
          and "snd ` set ps \<subseteq> values_at h a"
        for ps kvs' acc
        using that
      proof (induction ps arbitrary: kvs' acc)
        case Nil
        then show ?case by simp
      next
        case (Cons p ps)
        obtain key x where p: "p = (key, x)" by (cases p)
        from Cons.prems(1) p obtain jx rest where kvs': "kvs' = (key, jx) # rest"
          and x: "tree_of m' h x = Some jx"
          and rest: "list_all2 (\<lambda>x y. (case x of (key, v) \<Rightarrow> map_option (Pair key) (tree_of m' h v)) = Some y) ps rest"
          by (auto simp: list_all2_Cons1)
        have fresh: "key \<notin> fst ` set acc"
          using Cons.prems(3) p by auto
        have "F p (Some acc) = Some (acc @ [(key, jx)])"
          using step [OF x, of key acc] Cons.prems(4) p fresh by (simp add: update_fresh)
        moreover have "fold F ps (Some (acc @ [(key, jx)])) = Some ((acc @ [(key, jx)]) @ rest)"
          using Cons.prems p by (intro Cons.IH rest) auto
        ultimately show ?case
          using kvs' by simp
      qed
      from this [of props kvs "[]"] kvs dist CObject have "fold F props (Some []) = Some kvs"
        by (simp add: values_at_def)
      with unfold j show ?thesis by simp
    qed
  qed (use less.prems in simp_all)
qed

lemma breakCircularReferences_acyclic:
  "heap_wf h \<Longrightarrow> tree_of m h v = Some j \<Longrightarrow> m \<le> fuel
    \<Longrightarrow> breakCircularReferences fuel h v [] = Some j"
  using removeSensitiveKeys_acyclic [of h m v j "[]" fuel]
  by (simp add: breakCircularReferences_def)

text \<open>
  For \<open>{a: 1, b: [{c: "x"}]}\<close>, whose array and inner object are reached through
  references, the result is the value itself.
\<close>

lemma breakCircularReferences_tree:
  "breakCircularReferences 3 heap_tree (VRef 0) []
     = Some (JObj [(''a'', JNum 1), (''b'', JArr [JObj [(''c'', JStr ''x'')]])])"
proof (rule breakCircularReferences_acyclic [where m = 3])
  show "heap_wf heap_tree"
    by (simp add: heap_wf_def heap_tree_def)
  show "tree_of 3 heap_tree (VRef 0)
     = Some (JObj [(''a'', JNum 1), (''b'', JArr [JObj [(''c'', JStr ''x'')]])])"
    by (simp add: heap_tree_def numeral_3_eq_3)
qed simp

section \<open>Index routing\<close>

lemma fromISO_2024_07_01:
  "fromISO ''2024-07-01T00:00:00Z'' =
     Some \<lparr>year = 2024, month = 7, day = 1, hour = 0, minute = 0, second = 0, millisecond = 0\<rparr>"
  by code_simp

lemma fromISO_2024_08_31:
  "fromISO ''2024-08-31T23:59:59Z'' =
     Some \<lparr>year = 2024, month = 8, day = 31, hour = 23, minute = 59, second = 59, millisecond = 0\<rparr>"
  by code_simp

text \<open>The two buckets of 1 July to 31 August 2024: the first ends on 1 August at midnight.\<close>

lemma splitBy_july_august:
  "Interval_splitBy_month
     (Some \<lparr>year = 2024, month = 7, day = 1, hour = 0, minute = 0, second = 0, millisecond = 0\<rparr>)
     (Some \<lparr>year = 2024, month = 8, day = 31, hour = 23, minute = 59, second = 59, millisecond = 0\<rparr>)
   = [(\<lparr>year = 2024, month = 7, day = 1, hour = 0, minute = 0, second = 0, millisecond = 0\<rparr>,
       \<lparr>year = 2024, month = 8, day = 1, hour = 0, minute = 0, second = 0, millisecond = 0\<rparr>),
      (\<lparr>year = 2024, month = 8, day = 1, hour = 0, minute = 0, second = 0, millisecond = 0\<rparr>,
       \<lparr>year = 2024, month = 8, day = 31, hour = 23, minute = 59, second = 59, millisecond = 0\<rparr>)]"
  by (simp add: Interval_splitBy_month_def dt_less_def plusMonths_def monthIndex_def
        daysInMonth_def isLeapYear_def Let_def)

lemma index_name_august:
  "replace_all ''{month}''
     (toFormat_LL \<lparr>year = 2024, month = 8, day = d, hour = h, minute = mi, second = s, millisecond = ms\<rparr>)
     (replace_all ''{year}''
        (toFormat_yyyy \<lparr>year = 2024, month = 8, day = d, hour = h, minute = mi, second = s, millisecond = ms\<rparr>)
        (replace_all ''{companyId}'' ''c1'' (indexPattern default_engine)))
   = ''actions_c1_2024_08''"
  by (simp add: toFormat_LL_def toFormat_yyyy_def padStart_def string_of_nat.simps
        default_engine_def digit_char_def)

text \<open>
  The write path puts an action of July 2024 into the July index, which the read path
  below does not name.
\<close>

lemma getIndexName_july:
  "getIndexName default_engine ''2024-07-01T00:00:00Z'' (Some ''c1'') = ''actions_c1_2024_07''"
  by (simp add: getIndexName_def fromISO_2024_07_01 string_of_int_def string_of_nat.simps
        default_engine_def digit_char_def)

text \<open>
  C3 (fails on the code). For company \<open>c1\<close>, 1 July 2024 to 31 August 2024, under the default
  pattern, the claim says the result names the July and the August index. Each bucket is
  named after its end; the July bucket ends on 1 August, so the code names the August
  index twice and the July index not at all.
\<close>

theorem getIndexNameRange_july_august:
  "getIndexNameRange default_engine now ''c1''
     (Some ''2024-07-01T00:00:00Z'') (Some ''2024-08-31T23:59:59Z'')
   = ''actions_c1_2024_08,actions_c1_2024_08''"
  by (simp add: getIndexNameRange_def truthy_str_def fromISO_2024_07_01 fromISO_2024_08_31
        splitBy_july_august index_name_august del: One_nat_def)


section \<open>The timestamp range: ISO-8601 rendering\<close>

lemma digit_char_0: "digit_char 0 = CHR ''0''"
  by (simp add: digit_char_def)


lemma string_of_nat_nonempty: "string_of_nat n \<noteq> []"
  by (subst string_of_nat.simps) simp

lemma padStart_1: "n < 10 \<Longrightarrow> padStart (int n) 1 = [digit_char n]"
  by (simp add: padStart_def string_of_nat.simps [of n])

lemma padStart_step:
  assumes "1 \<le> k"
  shows "padStart (int n) (Suc k) = padStart (int (n div 10)) k @ [digit_char (n mod 10)]"
proof (cases "n < 10")
  case True
  have "replicate (k - 1) CHR ''0'' @ [CHR ''0''] = replicate k CHR ''0''"
    using assms by (cases k) (simp_all add: replicate_append_same)
  then show ?thesis
    using True by (simp add: padStart_def string_of_nat.simps [of n] string_of_nat.simps [of 0]
        digit_char_0)
next
  case False
  then show ?thesis
    by (simp add: padStart_def string_of_nat.simps [of n] Let_def)
qed

lemma padStart_2:
  assumes "n < 100"
  shows "padStart (int n) 2 = [digit_char (n div 10), digit_char (n mod 10)]"
proof -
  have "padStart (int n) (Suc 1) = padStart (int (n div 10)) 1 @ [digit_char (n mod 10)]"
    by (rule padStart_step) simp
  moreover have "padStart (int (n div 10)) 1 = [digit_char (n div 10)]"
    by (rule padStart_1) (use assms in simp)
  moreover have "Suc 1 = 2" by simp
  ultimately show ?thesis by (metis append_Cons append_Nil)
qed

lemma padStart_3:
  assumes "n < 1000"
  shows "padStart (int n) 3 =
     [digit_char (n div 100), digit_char (n div 10 mod 10), digit_char (n mod 10)]"
proof -
  have "padStart (int n) (Suc 2) = padStart (int (n div 10)) 2 @ [digit_char (n mod 10)]"
    by (rule padStart_step) simp
  moreover have "padStart (int (n div 10)) 2 =
      [digit_char (n div 10 div 10), digit_char (n div 10 mod 10)]"
    by (rule padStart_2) (use assms in simp)
  moreover have "Suc 2 = 3" by simp
  moreover have "n div 10 div 10 = n div 100" by (simp add: div_mult2_eq [symmetric])
  ultimately show ?thesis by (metis append_Cons append_Nil)
qed

lemma padStart_4:
  assumes "n < 10000"
  shows "padStart (int n) 4 =
     [digit_char (n div 1000), digit_char (n div 100 mod 10), digit_char (n div 10 mod 10),
      digit_char (n mod 10)]"
proof -
  have "padStart (int n) (Suc 3) = padStart (int (n div 10)) 3 @ [digit_char (n mod 10)]"
    by (rule padStart_step) simp
  moreover have "padStart (int (n div 10)) 3 =
      [digit_char (n div 10 div 100), digit_char (n div 10 div 10 mod 10),
       digit_char (n div 10 mod 10)]"
    by (rule padStart_3) (use assms in simp)
  moreover have "Suc 3 = 4" by simp
  moreover have "n div 10 div 100 = n div 1000" by (simp add: div_mult2_eq [symmetric])
  moreover have "n div 10 div 10 = n div 100" by (simp add: div_mult2_eq [symmetric])
  ultimately show ?thesis by (metis append_Cons append_Nil)
qed







lemma length_padStart_2: "n < 100 \<Longrightarrow> length (padStart (int n) 2) = 2"
  by (simp add: padStart_2)

lemma length_padStart_3: "n < 1000 \<Longrightarrow> length (padStart (int n) 3) = 3"
  by (simp add: padStart_3)

lemma length_padStart_4: "n < 10000 \<Longrightarrow> length (padStart (int n) 4) = 4"
  by (simp add: padStart_4)
















section \<open>The filter compiler: evaluation\<close>

lemma buildFindManyQuery_ignores_query:
  "buildFindManyQuery this now options (f\<lparr>f_query := q\<rparr>) = buildFindManyQuery this now options f"
  by (simp add: buildFindManyQuery_def timestamp_gte_def timestamp_lt_def scalar_clauses_def
        filters_get_def framework_clauses_def action_clauses_def agents_clauses_def
        targets_clauses_def request_clauses_def response_clauses_def changes_clauses_def
        meta_clauses_def)

lemmas section_defs =
  scalar_clauses_def filters_get_def truthy_strs_def framework_clauses_def action_clauses_def
  agents_clauses_def targets_clauses_def request_clauses_def response_clauses_def
  changes_clauses_def meta_clauses_def only_company_def

text \<open>
  C2 (fails on the code). The claim says that the \<open>meta\<close> sub-filter of an agents candidate
  gives one \<open>nested\<close> clause per key, as the top-level \<open>meta\<close> filter does. For the
  candidate \<open>{meta: {a: "1", b: "2"}}\<close> the code emits one \<open>nested\<close> clause on
  \<open>agents.meta\<close> that holds the term pairs of both keys.
\<close>

theorem agents_meta_two_keys_share_one_nested:
  "drop 2 (buildFindManyQuery this now options
     ((only_company ''123'')\<lparr>f_agents := Some (One \<lparr>ag_id = None, ag_type = None, ag_name = None,
         ag_meta = Some [(''a'', ''1''), (''b'', ''2'')]\<rparr>)\<rparr>))
   = [QNested ''agents''
        (QNested ''agents.meta''
           (QBoolMust [QTerm ''agents.meta.key'' (JStr ''a''),
                       QTerm ''agents.meta.value.keyword'' (JStr ''1''),
                       QTerm ''agents.meta.key'' (JStr ''b''),
                       QTerm ''agents.meta.value.keyword'' (JStr ''2'')]))]"
  by (simp add: buildFindManyQuery_def section_defs nested_should_def agentShould_def
        push_collapsed_def collapse_def agentMust_def field_terms_def agent_get_def
        truthy_str_def entity_meta_clauses_def entityMetaMust_def)

text \<open>The top-level \<open>meta\<close> filter with the same map: one \<open>nested\<close> clause for each key.\<close>

lemma meta_two_keys_one_nested_each:
  "drop 2 (buildFindManyQuery this now options
     ((only_company ''123'')\<lparr>f_meta := Some (One [(''a'', ''1''), (''b'', ''2'')])\<rparr>))
   = [QBoolMust
        [QNested ''meta'' (QBoolMust [QTerm ''meta.key'' (JStr ''a''),
                                      QTerm ''meta.value.keyword'' (JStr ''1'')]),
         QNested ''meta'' (QBoolMust [QTerm ''meta.key'' (JStr ''b''),
                                      QTerm ''meta.value.keyword'' (JStr ''2'')])]]"
  by (simp add: buildFindManyQuery_def section_defs metaShould_def metaMust_def
        push_collapsed_def collapse_def)

text \<open>
  C5 (fails on the code). The claim says that a free-text \<open>query\<close> adds a last
  \<open>bool.should\<close> clause. \<open>buildFindManyQuery\<close> never reads \<open>filters.query\<close>: for the filter
  \<open>{companyId: "123", start, end, query: "abc123"}\<close> of the test suite it returns the
  company term and the timestamp range, and nothing after them.
\<close>

theorem query_string_adds_no_clause:
  "drop 2 (buildFindManyQuery this now options
     ((only_company ''123'')\<lparr>f_start := Some ''2024-07-01T00:00:00.000Z'',
        f_end := Some ''2024-08-31T23:59:59.999Z'', f_query := Some ''abc123''\<rparr>)) = []"
  by (simp add: buildFindManyQuery_def section_defs)

text \<open>
  Two tests of the repository, on the part of the list after the company term and the
  timestamp range: an agents candidate with a type and one metadata key, and a request
  filter with two children under one parent.
\<close>

lemma agents_type_and_meta:
  "drop 2 (buildFindManyQuery this now options
     ((only_company ''123'')\<lparr>f_agents := Some (One \<lparr>ag_id = None, ag_type = Some ''USER'',
         ag_name = None, ag_meta = Some [(''clerkUserId'', ''clk_user_456'')]\<rparr>)\<rparr>))
   = [QNested ''agents''
        (QBoolMust
           [QTerm ''agents.type'' (JStr ''USER''),
            QNested ''agents.meta''
              (QBoolMust [QTerm ''agents.meta.key'' (JStr ''clerkUserId''),
                          QTerm ''agents.meta.value.keyword'' (JStr ''clk_user_456'')])])]"
  by (simp add: buildFindManyQuery_def section_defs nested_should_def agentShould_def
        push_collapsed_def collapse_def agentMust_def field_terms_def agent_get_def
        truthy_str_def entity_meta_clauses_def entityMetaMust_def)

lemma request_two_children:
  "drop 2 (buildFindManyQuery this now options
     ((only_company ''123'')\<lparr>f_request := Some (One [(''params'',
         ReqParent [(''storeId'', ''s1''), (''transactionId'', ''t1'')])])\<rparr>))
   = [QBoolMust
        [QNested ''request''
           (QBoolMust [QTerm ''request.key'' (JStr ''storeId''),
                       QTerm ''request.parent'' (JStr ''params''),
                       QTerm ''request.value.keyword'' (JStr ''s1'')]),
         QNested ''request''
           (QBoolMust [QTerm ''request.key'' (JStr ''transactionId''),
                       QTerm ''request.parent'' (JStr ''params''),
                       QTerm ''request.value.keyword'' (JStr ''t1'')])]]"
  by (simp add: buildFindManyQuery_def section_defs requestShould_def requestMust_def
        push_collapsed_def collapse_def)


section \<open>The filter compiler: singleton collapse\<close>


































text \<open>Two framework candidates, the second with two populated fields: both wrappers appear.\<close>

lemma framework_two_candidates:
  "drop 2 (buildFindManyQuery this now options
     ((only_company ''123'')\<lparr>f_framework :=
        Some (Many [\<lparr>fw_name = Some ''apollo'', fw_version = None\<rparr>,
                    \<lparr>fw_name = Some ''express'', fw_version = Some ''5.0.0''\<rparr>])\<rparr>))
   = [QBoolShould
        [QTerm ''framework.name'' (JStr ''apollo''),
         QBoolMust [QTerm ''framework.name'' (JStr ''express''),
                    QTerm ''framework.version'' (JStr ''5.0.0'')]]]"
  by (simp add: buildFindManyQuery_def section_defs frameworkShould_def frameworkMust_def
        push_collapsed_def collapse_def field_terms_def framework_get_def truthy_str_def)


section \<open>The filter compiler: the company term and the timestamp range\<close>





text \<open>The test of the repository with both bounds given: they come back as they are.\<close>

lemma buildFindManyQuery_date_range:
  "buildFindManyQuery this now options
     ((only_company ''123'')\<lparr>f_start := Some ''2024-07-01T00:00:00.000Z'',
        f_end := Some ''2024-08-31T23:59:59.999Z''\<rparr>)
   = [QTerm ''companyId'' (JStr ''123''),
      QRange ''timestamp'' [(''gte'', JStr ''2024-07-01T00:00:00.000Z''),
                            (''lt'', JStr ''2024-08-31T23:59:59.999Z'')]]"
proof -
  have s: "iso_or_null (fromISO ''2024-07-01T00:00:00.000Z'') = JStr ''2024-07-01T00:00:00.000Z''"
    by code_simp
  have e: "iso_or_null (fromISO ''2024-08-31T23:59:59.999Z'') = JStr ''2024-08-31T23:59:59.999Z''"
    by code_simp
  show ?thesis
    by (simp add: buildFindManyQuery_def section_defs timestamp_gte_def timestamp_lt_def
          truthy_str_def s e)
qed


section \<open>The document codec: stored values\<close>

lemma JSON_stringify_number_2222: "JSON_stringify (JNum 2222) = Some ''2222''"
  by (simp add: string_of_int_def string_of_nat.simps digit_char_def)

text \<open>
  C4 (fails on the code). The claim says that the stored value of a nested request field
  that is not a string is the JSON encoding of that inner leaf. For
  \<open>request = {body: {number: 2222}}\<close> the leaf is \<open>2222\<close>, whose encoding is \<open>2222\<close>; the
  code stores the encoding of the parent object \<open>body\<close>.
\<close>

theorem serialize_request_nested_number:
  \<open>serialize_request [(''body'', JObj [(''number'', JNum 2222)])] =
     [\<lparr>rq_key = ''number'', rq_parent = Some ''body'', rq_value = Some ''{"number":2222}''\<rparr>]\<close>
  by (simp add: serialize_request_def request_entries_def nested_value_def
        breakCircularReferences_json_def truthy_str_def
        string_of_int_def string_of_nat.simps digit_char_def quote_def escape_char_def)


section \<open>The document codec: the round trip\<close>

subsection \<open>Cycle breaking and \<open>JSON.stringify\<close> on values without sharing\<close>



lemma string_of_int_nonempty: "string_of_int i \<noteq> []"
  by (simp add: string_of_int_def string_of_nat_nonempty)

lemma JSON_stringify_nonempty: "JSON_stringify v = Some s \<Longrightarrow> s \<noteq> []"
  by (cases v) (auto simp: string_of_int_nonempty quote_def split: if_splits)

lemma JSON_stringify_defined: "v \<noteq> JUndefined \<Longrightarrow> \<exists>s. JSON_stringify v = Some s"
  by (cases v) simp_all









subsection \<open>Assignments to the keys of an object\<close>





subsection \<open>The request\<close>



















subsection \<open>\<open>before\<close> and \<open>after\<close> of a change\<close>




subsection \<open>The parts of an Action\<close>








subsection \<open>Agreement\<close>








subsection \<open>Idempotence\<close>











subsection \<open>The round trip\<close>


text \<open>
  The other values that the guards drop, each at an Action that is otherwise bare: a
  nested object without children, a nested object under the empty key, and a change whose
  \<open>before\<close> is the empty string.
\<close>

lemma round_trip_empty_nested_object:
  "\<not> round_trip (bare_action\<lparr>a_request := Some [(''p'', JObj [])]\<rparr>)"
  by (simp add: round_trip_def bare_action_def serialize_def deserialize_def
        serialize_request_def request_entries_def action_agrees_def request_agrees_def)

lemma round_trip_empty_parent_key:
  "\<not> round_trip (bare_action\<lparr>a_request := Some [([], JObj [(''k'', JStr ''v'')])]\<rparr>)"
  by (simp add: round_trip_def bare_action_def serialize_def deserialize_def
        serialize_request_def request_entries_def nested_value_def truthy_str_def
        deserialize_request_step_def js_string_def action_agrees_def request_agrees_def)

lemma round_trip_empty_before:
  "\<not> round_trip (bare_action\<lparr>a_changes :=
       Some [\<lparr>change_model = ''order'', change_operation = ''update'', change_id = None,
              change_path = None, change_before = Some (JStr []),
              change_after = Some (JStr ''paid''), change_meta = None\<rparr>]\<rparr>)"
  by (simp add: round_trip_def bare_action_def serialize_def deserialize_def
        serialize_change_def deserialize_change_def serialize_before_def stringify_leaf_def
        transformObjectToArray_def transformArrayToObject_def action_agrees_def
        change_agrees_def before_agrees_def)




section \<open>The write path\<close>

lemma createMany_loop_invalid:
  "\<not> list_all OpenSearchActionSchema actions \<Longrightarrow>
   createMany_loop this v4 actions i bulk dbActions = Inl ValidationError"
  by (induction actions arbitrary: i bulk dbActions) (auto simp: Let_def split: json.splits)

lemma OpenSearchActionSchema_object:
  "OpenSearchActionSchema action \<Longrightarrow> \<exists>kvs. action = JObj kvs"
  by (cases action) (simp_all add: OpenSearchActionSchema_def z_object_def)

lemma createMany_loop_valid:
  "list_all OpenSearchActionSchema actions \<Longrightarrow>
   createMany_loop this v4 actions i bulk dbActions =
     Inr (bulk @ concat (map (\<lambda>(j, a). [bulk_header this v4 j a, action_body v4 j a])
                          (enumerate i actions)),
          dbActions @ map (\<lambda>(j, a). action_body v4 j a) (enumerate i actions))"
proof (induction actions arbitrary: i bulk dbActions)
  case Nil
  then show ?case by simp
next
  case (Cons action actions)
  then obtain kvs where kvs: "action = JObj kvs"
    using OpenSearchActionSchema_object [of action] by auto
  show ?case
    using Cons.prems Cons.IH [of "i + 1"]
    by (simp add: kvs Let_def bulk_header_def action_body_def)
qed

text \<open>
  C9. If an action of the batch does not validate, \<open>createMany\<close> fails with the
  validation error and no request has reached the client: no action of the batch is
  written. If every action validates, exactly one bulk request is issued, and its body
  holds the header and the document of every action, in order.
\<close>

theorem createMany_validates_before_bulk:
  "(\<not> list_all OpenSearchActionSchema actions \<longrightarrow>
      createMany this v4 accepts calls actions = (Inl ValidationError, calls))
   \<and> (list_all OpenSearchActionSchema actions \<longrightarrow>
      snd (createMany this v4 accepts calls actions) =
        calls @ [BulkCall (concat (map (\<lambda>(j, a). [bulk_header this v4 j a, action_body v4 j a])
                                    (enumerate 0 actions)))])"
  by (simp add: createMany_def createMany_loop_invalid createMany_loop_valid)

lemma minimal_action_valid:
  "OpenSearchActionSchema (minimal_action JUndefined)"
  "OpenSearchActionSchema (minimal_action (JStr s))"
  "\<not> OpenSearchActionSchema (minimal_action JNull)"
  by (simp_all add: OpenSearchActionSchema_def minimal_action_def z_object_def z_optional_def
        z_string_def z_array_def js_get_def)

theorem createMany_validates_before_bulk_witness:
  "\<not> list_all OpenSearchActionSchema [minimal_action (JStr ''a1''), minimal_action JNull]
   \<and> createMany default_engine sample_v4 always_accepts []
        [minimal_action (JStr ''a1''), minimal_action JNull] = (Inl ValidationError, [])
   \<and> list_all OpenSearchActionSchema [minimal_action (JStr ''a1''), minimal_action JUndefined]
   \<and> snd (createMany default_engine sample_v4 always_accepts []
        [minimal_action (JStr ''a1''), minimal_action JUndefined]) =
      [BulkCall
         [bulk_header default_engine sample_v4 0 (minimal_action (JStr ''a1'')),
          action_body sample_v4 0 (minimal_action (JStr ''a1'')),
          bulk_header default_engine sample_v4 1 (minimal_action JUndefined),
          action_body sample_v4 1 (minimal_action JUndefined)]]"
  using createMany_validates_before_bulk
      [of "[minimal_action (JStr ''a1''), minimal_action JNull]" default_engine sample_v4
          always_accepts "[]"]
    createMany_validates_before_bulk
      [of "[minimal_action (JStr ''a1''), minimal_action JUndefined]" default_engine sample_v4
          always_accepts "[]"]
  by (simp add: minimal_action_valid enumerate_eq_zip upt_rec del: upt_Suc)

lemma js_get_with_id_other: "k \<noteq> ''id'' \<Longrightarrow> js_get (with_id kvs u) k = js_get kvs k"
  by (simp add: js_get_def with_id_def update_conv')

lemma js_get_with_id_id:
  "js_get (with_id kvs u) ''id'' =
     (if truthy_json (js_get kvs ''id'') then js_get kvs ''id'' else JStr u)"
  by (simp add: js_get_def with_id_def update_conv')

text \<open>
  The claim of C10, as stated, at an input whose \<open>id\<close> is the empty string: the id is
  not preserved, the returned action carries the generated one.
\<close>

theorem create_empty_id_replaced:
  "fst (create default_engine sample_v4 always_accepts [] (minimal_action (JStr ''''))) =
     Inr (set_id (JStr ''3b241101-e2bb-4255-8caf-4136c566a962'') (minimal_action (JStr '''')))
   \<and> set_id (JStr ''3b241101-e2bb-4255-8caf-4136c566a962'') (minimal_action (JStr ''''))
       \<noteq> minimal_action (JStr '''')"
  by (simp add: create_def minimal_action_valid)
     (simp add: minimal_action_def with_id_def js_get_def set_id_def sample_v4_def
        always_accepts_def Let_def)

text \<open>
  C10 (amended). When \<open>create\<close> or \<open>createMany\<close> returns, each returned action is the
  input action with every property other than \<open>id\<close> unchanged; its \<open>id\<close> is the input's
  when that is a non-empty string, and the generated UUID when the input has no \<open>id\<close> or
  an empty one. The document sent for indexing is the returned action.
\<close>

theorem create_returns_input_with_id:
  "(fst (create this v4 accepts calls action) = Inr r \<longrightarrow>
      r = action_body v4 0 action
      \<and> (\<exists>i idx. snd (create this v4 accepts calls action) = calls @ [IndexCall i idx r True]))
   \<and> (fst (createMany this v4 accepts calls actions) = Inr rs \<longrightarrow>
      rs = map (\<lambda>(j, a). action_body v4 j a) (enumerate 0 actions)
      \<and> (\<forall>a \<in> set actions. OpenSearchActionSchema a))
   \<and> (OpenSearchActionSchema action \<longrightarrow>
      (\<exists>kvs body. action = JObj kvs \<and> action_body v4 j action = JObj body
         \<and> (\<forall>k. k \<noteq> ''id'' \<longrightarrow> js_get body k = js_get kvs k)
         \<and> js_get body ''id'' =
             (if truthy_json (js_get kvs ''id'') then js_get kvs ''id'' else JStr (v4 j))))"
proof (intro conjI impI)
  assume a: "fst (create this v4 accepts calls action) = Inr r"
  then have v: "OpenSearchActionSchema action"
    by (auto simp: create_def split: if_splits)
  then obtain kvs where kvs: "action = JObj kvs"
    using OpenSearchActionSchema_object by blast
  show "r = action_body v4 0 action"
    using a v by (auto simp: create_def kvs Let_def action_body_def split: if_splits)
  show "\<exists>i idx. snd (create this v4 accepts calls action) = calls @ [IndexCall i idx r True]"
    using a v by (auto simp: create_def kvs Let_def split: if_splits)
next
  assume a: "fst (createMany this v4 accepts calls actions) = Inr rs"
  have v: "list_all OpenSearchActionSchema actions"
  proof (rule ccontr)
    assume "\<not> list_all OpenSearchActionSchema actions"
    then show False using a by (simp add: createMany_def createMany_loop_invalid)
  qed
  show "rs = map (\<lambda>(j, a). action_body v4 j a) (enumerate 0 actions)"
    using a by (auto simp: createMany_def createMany_loop_valid [OF v] split: if_splits)
  show "\<forall>a \<in> set actions. OpenSearchActionSchema a"
    using v by (simp add: list_all_iff)
next
  assume "OpenSearchActionSchema action"
  then obtain kvs where kvs: "action = JObj kvs"
    using OpenSearchActionSchema_object by blast
  show "\<exists>kvs body. action = JObj kvs \<and> action_body v4 j action = JObj body
         \<and> (\<forall>k. k \<noteq> ''id'' \<longrightarrow> js_get body k = js_get kvs k)
         \<and> js_get body ''id'' =
             (if truthy_json (js_get kvs ''id'') then js_get kvs ''id'' else JStr (v4 j))"
    by (simp add: kvs action_body_def js_get_with_id_other js_get_with_id_id)
qed

theorem create_returns_input_with_id_witness:
  "fst (create default_engine sample_v4 always_accepts [] (minimal_action JUndefined)) =
     Inr (set_id (JStr ''3b241101-e2bb-4255-8caf-4136c566a962'') (minimal_action JUndefined))
   \<and> fst (createMany default_engine sample_v4 always_accepts []
         [minimal_action (JStr ''a1''), minimal_action JUndefined]) =
     Inr [minimal_action (JStr ''a1''),
          set_id (JStr ''3b241101-e2bb-4255-8caf-4136c566a962'') (minimal_action JUndefined)]
   \<and> OpenSearchActionSchema (minimal_action JUndefined)
   \<and> action_body sample_v4 0 (minimal_action JUndefined) =
     set_id (JStr ''3b241101-e2bb-4255-8caf-4136c566a962'') (minimal_action JUndefined)"
proof -
  have b0: "action_body sample_v4 j (minimal_action JUndefined) =
      set_id (JStr ''3b241101-e2bb-4255-8caf-4136c566a962'') (minimal_action JUndefined)" for j
    by (simp add: action_body_def minimal_action_def with_id_def js_get_def set_id_def
          sample_v4_def)
  have b1: "action_body sample_v4 j (minimal_action (JStr ''a1'')) = minimal_action (JStr ''a1'')"
    for j
    by (simp add: action_body_def minimal_action_def with_id_def js_get_def)
  have c: "fst (create default_engine sample_v4 always_accepts [] (minimal_action JUndefined)) =
      Inr (action_body sample_v4 0 (minimal_action JUndefined))"
    by (simp add: create_def minimal_action_valid)
       (simp add: minimal_action_def action_body_def always_accepts_def Let_def)
  have m: "fst (createMany default_engine sample_v4 always_accepts []
         [minimal_action (JStr ''a1''), minimal_action JUndefined]) =
      Inr [action_body sample_v4 0 (minimal_action (JStr ''a1'')),
           action_body sample_v4 1 (minimal_action JUndefined)]"
  proof -
    have v: "list_all OpenSearchActionSchema
        [minimal_action (JStr ''a1''), minimal_action JUndefined]"
      by (simp add: minimal_action_valid)
    show ?thesis
      unfolding createMany_def createMany_loop_valid [OF v]
      by (simp add: always_accepts_def enumerate_eq_zip upt_rec del: upt_Suc)
  qed
  show ?thesis
    using create_returns_input_with_id
      [of default_engine sample_v4 always_accepts "[]" "minimal_action JUndefined"
          "action_body sample_v4 0 (minimal_action JUndefined)"
          "[minimal_action (JStr ''a1''), minimal_action JUndefined]"
          "[action_body sample_v4 0 (minimal_action (JStr ''a1'')),
            action_body sample_v4 1 (minimal_action JUndefined)]" 0]
    by (simp add: c m b0 b1 minimal_action_valid)
qed


end
